theory Spec2Isabelle
  imports Complex_Main
begin

section \<open>Booking and installment lifecycle of the rental backend\<close>

text \<open>
  The development embeds the class \<open>BookingController\<close> of
  \<open>src/modules/bookings\<close> (availability check, booking creation, installment payment,
  manual confirmation, gateway webhook, simulated payment) together with the tables of
  \<open>src/db/schema/index.ts\<close> those handlers read and write.

  Conventions of the embedding:
  \<^item> a table is the list of its rows, in insertion order; \<open>select ... where\<close> is
    \<open>filter\<close>, \<open>limit 1\<close> keeps the first row, \<open>update ... where\<close> rewrites every row the
    condition selects, \<open>insert\<close> appends;
  \<^item> a \<open>decimal(12,2)\<close> column holds an integer number of hundredths; a JavaScript number
    is a rational, and writing it into such a column rounds it to two fractional digits;
  \<^item> a JavaScript \<open>Date\<close> is given by its calendar fields in the server's zone, taken to be
    UTC (the container sets no zone);
  \<^item> what a handler obtains from outside (the clock, generated row ids, process
    environment, the answers of the payment gateway and of the PDF service) is an argument
    of its model;
  \<^item> columns no handler reads (\<open>createdAt\<close>, \<open>updatedAt\<close>, \<open>reminderSentAt\<close>, and the
    generated ids of conflict, invoice, agreement and transaction rows) are left out;
  \<^item> the store is taken to accept every statement the handlers issue, apart from the
    rejections written out in the models.
\<close>

subsection \<open>Values\<close>

type_synonym uuid = string

type_synonym decimal2 = int

text \<open>Calendar fields of a \<open>Date\<close>: full year, month 0..11, day of month 1..31,
  milliseconds since midnight.\<close>

record jsdate =
  yr :: int
  mon :: int
  dom :: int
  tod :: int

text \<open>Order of two dates as instants (what \<open>gte\<close>/\<open>lte\<close> compare in the store).\<close>

definition dateLe :: "jsdate \<Rightarrow> jsdate \<Rightarrow> bool" where
  "dateLe a b \<longleftrightarrow>
     yr a < yr b \<or> (yr a = yr b \<and>
       (mon a < mon b \<or> (mon a = mon b \<and>
         (dom a < dom b \<or> (dom a = dom b \<and> tod a \<le> tod b)))))"

definition leapYear :: "int \<Rightarrow> bool" where
  "leapYear y \<longleftrightarrow> (y mod 4 = 0 \<and> y mod 100 \<noteq> 0) \<or> y mod 400 = 0"

definition daysInMonth :: "int \<Rightarrow> int \<Rightarrow> int" where
  "daysInMonth y m =
     (if m = 1 then (if leapYear y then 29 else 28)
      else if m = 3 \<or> m = 5 \<or> m = 8 \<or> m = 10 then 30 else 31)"

text \<open>\<open>Date.prototype.setMonth(m)\<close>: the year takes up \<open>floor (m / 12)\<close>, the month is
  \<open>m modulo 12\<close>, and a day of month the target month does not have runs over into the
  month after it (a day of month is at most 31 and a month has at least 28 days, so it runs
  over by at most three days).\<close>

definition setMonth :: "jsdate \<Rightarrow> int \<Rightarrow> jsdate" where
  "setMonth d m =
     (let y = yr d + m div 12; mn = m mod 12; len = daysInMonth y mn
      in if dom d \<le> len then d\<lparr>yr := y, mon := mn\<rparr>
         else if mn = 11 then d\<lparr>yr := y + 1, mon := 0, dom := dom d - len\<rparr>
         else d\<lparr>yr := y, mon := mn + 1, dom := dom d - len\<rparr>)"

definition getMonth :: "jsdate \<Rightarrow> int" where
  "getMonth d = mon d"

text \<open>Writing a number into a \<open>decimal(12,2)\<close> column: the store rounds to the column's
  scale, a tie away from zero. The result is in hundredths.\<close>

definition toScale2 :: "rat \<Rightarrow> decimal2" where
  "toScale2 x = (if 0 \<le> x then \<lfloor>x * 100 + 1 / 2\<rfloor> else - \<lfloor>- x * 100 + 1 / 2\<rfloor>)"

datatype paymentType = CASH | ONLINE

datatype paymentMethod = BANK_TRANSFER | CASH_METHOD | EWALLET | CREDIT_CARD

datatype installmentStatus = UNPAID | PAID | OVERDUE

datatype paymentStatus = PENDING_PAYMENT | COMPLETED_PAYMENT | FAILED_PAYMENT | REFUNDED_PAYMENT

datatype bookingStatus = PENDING | CONFIRMED | ACTIVE | COMPLETED | CANCELLED

subsection \<open>Tables\<close>

record property =
  propId :: uuid
  ownerId :: uuid

record booking =
  bId :: uuid
  bPropertyId :: uuid
  bTenantId :: uuid
  bLandlordId :: uuid
  bStartDate :: jsdate
  bEndDate :: jsdate
  bTotalAmount :: decimal2
  bSecurityDeposit :: "decimal2 option"
  bPaymentType :: paymentType
  bInstallmentCount :: int
  bStatus :: bookingStatus
  bContractPdfUrl :: "string option"
  bContractGeneratedAt :: "jsdate option"

record lease =
  lId :: uuid
  lPropertyId :: uuid
  lTenantId :: uuid
  lLandlordId :: uuid
  lStartDate :: jsdate
  lEndDate :: jsdate
  lRentAmount :: decimal2
  lSecurityDeposit :: "decimal2 option"
  lNotes :: string

record bookingConflict =
  cPropertyId :: uuid
  cStartDate :: jsdate
  cEndDate :: jsdate
  cBookingId :: "uuid option"

record installment =
  iId :: uuid
  iBookingId :: uuid
  installmentNumber :: int
  amount :: decimal2
  dueDate :: jsdate
  status :: installmentStatus
  paidAt :: "jsdate option"
  paidAmount :: "decimal2 option"
  iPaymentMethod :: "paymentMethod option"
  xenditInvoiceId :: "string option"
  xenditExternalId :: "string option"

datatype invoiceStatus = DUE | INVOICE_PAID

record invoice =
  invLeaseId :: uuid
  invAmount :: decimal2
  invDueDate :: jsdate
  invStatus :: invoiceStatus
  invMemo :: string
  invPaidAt :: "jsdate option"

record rentalAgreement =
  raLeaseId :: uuid
  raPdfUrl :: string
  raPublicId :: string
  raFileName :: string
  raFileSize :: int

record paymentTransaction =
  tInstallmentId :: "uuid option"
  tBookingId :: uuid
  tAmount :: decimal2
  tPaymentMethod :: paymentMethod
  tPaymentType :: paymentType
  tXenditInvoiceId :: "string option"
  tXenditExternalId :: "string option"
  tStatus :: paymentStatus
  tPaidAt :: "jsdate option"

record db =
  properties :: "property list"
  bookings :: "booking list"
  leases :: "lease list"
  bookingConflicts :: "bookingConflict list"
  installments :: "installment list"
  invoices :: "invoice list"
  rentalAgreements :: "rentalAgreement list"
  paymentTransactions :: "paymentTransaction list"

subsection \<open>Conflict ledger: \<open>checkAvailability\<close>\<close>

text \<open>The \<open>where\<close> clause shared by \<open>checkAvailability\<close> and \<open>createBooking\<close>:
  same property, \<open>endDate \<ge> startDate of the request\<close>, \<open>startDate \<le> endDate of the
  request\<close>.\<close>

definition conflictsWith :: "uuid \<Rightarrow> jsdate \<Rightarrow> jsdate \<Rightarrow> bookingConflict \<Rightarrow> bool" where
  "conflictsWith pid s e c \<longleftrightarrow>
     cPropertyId c = pid \<and> dateLe s (cEndDate c) \<and> dateLe (cStartDate c) e"

definition selectConflicts :: "db \<Rightarrow> uuid \<Rightarrow> jsdate \<Rightarrow> jsdate \<Rightarrow> bookingConflict list" where
  "selectConflicts d pid s e = filter (conflictsWith pid s e) (bookingConflicts d)"

record availability =
  available :: bool
  conflicts :: "bookingConflict list"
  message :: string

definition checkAvailability :: "db \<Rightarrow> uuid \<Rightarrow> jsdate \<Rightarrow> jsdate \<Rightarrow> availability" where
  "checkAvailability d pid s e =
     (let cs = selectConflicts d pid s e; isAvailable = (length cs = 0)
      in \<lparr>available = isAvailable, conflicts = cs,
          message = (if isAvailable then ''Property available for booking''
                     else ''Property not available for selected dates'')\<rparr>)"

subsection \<open>What the handlers obtain from outside\<close>

record xenditInvoice =
  xiId :: string
  xiExternalId :: string
  xiAmount :: rat
  xiStatus :: string
  xiInvoiceUrl :: string
  xiExpiryDate :: string

text \<open>The call \<open>POST /v2/invoices\<close>: \<open>fetch\<close> rejects, or answers with a status that is not
  \<open>ok\<close>, or answers \<open>ok\<close> with a body that does not parse, or with an invoice.\<close>

datatype invoiceCall =
    FetchRejected string
  | HttpError nat string
  | JsonRejected string
  | InvoiceReturned xenditInvoice

text \<open>The call \<open>GET /v2/invoices/:id\<close> of the manual confirmation.\<close>

datatype verifyCall = VerifyRejected | VerifyNotOk | VerifyReturned string

record pdfResult =
  pdfUrl :: string
  pdfKey :: string
  pdfFileName :: string
  pdfSize :: int

datatype pdfCall = PdfFailed | PdfGenerated pdfResult

record world =
  now :: jsdate
  nowMillis :: nat
  envXenditSecretKey :: "string option"
  envXenditApiKey :: "string option"
  envXenditWebhookToken :: "string option"
  createInvoiceCall :: invoiceCall
  getInvoiceCall :: verifyCall
  generatePdfCall :: pdfCall
  genBookingId :: uuid
  genLeaseId :: uuid
  genInstallmentId :: "nat \<Rightarrow> uuid"

text \<open>JavaScript truthiness of a value that is a string or \<open>undefined\<close>.\<close>

definition truthy :: "string option \<Rightarrow> bool" where
  "truthy s \<longleftrightarrow> (case s of None \<Rightarrow> False | Some v \<Rightarrow> v \<noteq> [])"

definition orElse :: "string option \<Rightarrow> string option \<Rightarrow> string option" where
  "orElse a b = (if truthy a then a else b)"

definition digitChar :: "nat \<Rightarrow> char" where
  "digitChar n = char_of (48 + n)"

function showNat :: "nat \<Rightarrow> string" where
  "showNat n = (if n < 10 then [digitChar n] else showNat (n div 10) @ [digitChar (n mod 10)])"
  by pat_completeness auto
termination
  by (relation "measure id") auto

declare showNat.simps [simp del]

definition showInt :: "int \<Rightarrow> string" where
  "showInt i = (if i < 0 then CHR ''-'' # showNat (nat (- i)) else showNat (nat i))"

definition paymentTypeOfString :: "string \<Rightarrow> paymentType option" where
  "paymentTypeOfString s =
     (if s = ''CASH'' then Some CASH else if s = ''ONLINE'' then Some ONLINE else None)"

definition paymentMethodOfString :: "string \<Rightarrow> paymentMethod option" where
  "paymentMethodOfString s =
     (if s = ''BANK_TRANSFER'' then Some BANK_TRANSFER
      else if s = ''CASH'' then Some CASH_METHOD
      else if s = ''EWALLET'' then Some EWALLET
      else if s = ''CREDIT_CARD'' then Some CREDIT_CARD
      else None)"

subsection \<open>Responses\<close>

record createdData =
  rBooking :: booking
  rLease :: lease
  rInstallments :: "installment list"
  rInvoices :: "invoice list"
  rRentalAgreement :: rentalAgreement
  rContractPdfUrl :: string

text \<open>The JSON bodies the handlers send. \<open>Failure msg\<close> is
  \<open>{success: false, error: msg, ...}\<close>; \<open>ErrorOnly msg\<close> is \<open>{error: msg}\<close>.\<close>

datatype body =
    Failure string
  | ErrorOnly string
  | Received
  | BookingCreated createdData
  | CashPaymentRecorded uuid decimal2 jsdate
  | InvoiceCreated xenditInvoice
  | PaymentConfirmed uuid decimal2 jsdate
  | PaymentSimulated uuid decimal2

record response =
  httpStatus :: nat
  body :: body

definition respond :: "nat \<Rightarrow> body \<Rightarrow> response" where
  "respond c b = \<lparr>httpStatus = c, body = b\<rparr>"

subsection \<open>Booking creation: \<open>createBooking\<close>\<close>

record createBookingReq =
  reqUser :: "uuid option"
  reqPropertyId :: uuid
  reqStartDate :: jsdate
  reqEndDate :: jsdate
  reqTotalAmount :: rat
  reqSecurityDeposit :: "rat option"
  reqPaymentType :: "string option"
  reqInstallmentCount :: "int option"

text \<open>The objects the schedule loop pushes onto \<open>installmentRecords\<close> and
  \<open>invoiceRecords\<close>, before the store sees them.\<close>

record installmentRecord =
  irBookingId :: uuid
  irInstallmentNumber :: int
  irAmount :: rat
  irDueDate :: jsdate
  irStatus :: installmentStatus

record invoiceRecord =
  vrLeaseId :: uuid
  vrAmount :: rat
  vrDueDate :: jsdate
  vrStatus :: invoiceStatus
  vrMemo :: string

definition installmentDueDate :: "jsdate \<Rightarrow> int \<Rightarrow> jsdate" where
  "installmentDueDate startDate i = setMonth startDate (getMonth startDate + (i - 1))"

definition mkInstallmentRecord :: "uuid \<Rightarrow> rat \<Rightarrow> jsdate \<Rightarrow> int \<Rightarrow> installmentRecord" where
  "mkInstallmentRecord bid installmentAmount startDate i =
     \<lparr>irBookingId = bid, irInstallmentNumber = i, irAmount = installmentAmount,
      irDueDate = installmentDueDate startDate i, irStatus = UNPAID\<rparr>"

definition mkInvoiceRecord :: "uuid \<Rightarrow> uuid \<Rightarrow> rat \<Rightarrow> jsdate \<Rightarrow> int \<Rightarrow> int \<Rightarrow> invoiceRecord" where
  "mkInvoiceRecord lid bid installmentAmount startDate installmentCount i =
     \<lparr>vrLeaseId = lid, vrAmount = installmentAmount,
      vrDueDate = installmentDueDate startDate i, vrStatus = DUE,
      vrMemo = ''Installment '' @ showInt i @ '' of '' @ showInt installmentCount
               @ '' for booking '' @ bid\<rparr>"

text \<open>The loop \<open>for (let i = 1; i <= installmentCount; i++)\<close>, started at \<open>i\<close> with the
  two arrays built so far.\<close>

function scheduleLoop ::
  "uuid \<Rightarrow> uuid \<Rightarrow> rat \<Rightarrow> jsdate \<Rightarrow> int \<Rightarrow> int \<Rightarrow> installmentRecord list \<times> invoiceRecord list
     \<Rightarrow> installmentRecord list \<times> invoiceRecord list" where
  "scheduleLoop lid bid installmentAmount startDate installmentCount i acc =
     (if i \<le> installmentCount
      then scheduleLoop lid bid installmentAmount startDate installmentCount (i + 1)
             (fst acc @ [mkInstallmentRecord bid installmentAmount startDate i],
              snd acc @ [mkInvoiceRecord lid bid installmentAmount startDate installmentCount i])
      else acc)"
  by pat_completeness auto
termination
  by (relation "measure (\<lambda>(lid, bid, a, s, n, i, acc). nat (n + 1 - i))") auto

declare scheduleLoop.simps [simp del]

text \<open>\<open>insert(installments).values(...).returning()\<close>: each row gets a generated id, the
  amount is rounded to the column's scale, the payment columns are null.\<close>

definition storeInstallment :: "uuid \<Rightarrow> installmentRecord \<Rightarrow> installment" where
  "storeInstallment newId r =
     \<lparr>iId = newId, iBookingId = irBookingId r, installmentNumber = irInstallmentNumber r,
      amount = toScale2 (irAmount r), dueDate = irDueDate r, status = irStatus r,
      paidAt = None, paidAmount = None, iPaymentMethod = None,
      xenditInvoiceId = None, xenditExternalId = None\<rparr>"

definition storeInstallments :: "(nat \<Rightarrow> uuid) \<Rightarrow> installmentRecord list \<Rightarrow> installment list" where
  "storeInstallments gen rs = map (\<lambda>(k, r). storeInstallment (gen k) r) (enumerate 0 rs)"

definition storeInvoice :: "invoiceRecord \<Rightarrow> invoice" where
  "storeInvoice r =
     \<lparr>invLeaseId = vrLeaseId r, invAmount = toScale2 (vrAmount r), invDueDate = vrDueDate r,
      invStatus = vrStatus r, invMemo = vrMemo r, invPaidAt = None\<rparr>"

definition placeholderUrl :: "uuid \<Rightarrow> string" where
  "placeholderUrl bid = ''https://storage.example.com/contracts/'' @ bid @ ''.pdf''"

text \<open>The \<open>try\<close>/\<open>catch\<close> around the PDF service: the contract reference and the rental
  agreement row of either branch.\<close>

definition contractOf :: "pdfCall \<Rightarrow> uuid \<Rightarrow> uuid \<Rightarrow> string \<times> rentalAgreement" where
  "contractOf call lid bid =
     (case call of
        PdfGenerated r \<Rightarrow>
          (pdfUrl r,
           \<lparr>raLeaseId = lid, raPdfUrl = pdfUrl r, raPublicId = pdfKey r,
            raFileName = pdfFileName r, raFileSize = pdfSize r\<rparr>)
      | PdfFailed \<Rightarrow>
          (placeholderUrl bid,
           \<lparr>raLeaseId = lid, raPdfUrl = placeholderUrl bid, raPublicId = ''contract_'' @ bid,
            raFileName = ''rental_agreement_'' @ bid @ ''.pdf'', raFileSize = 1024000\<rparr>))"

definition confirmBooking :: "uuid \<Rightarrow> string \<Rightarrow> jsdate \<Rightarrow> booking \<Rightarrow> booking" where
  "confirmBooking bid url t b =
     (if bId b = bid
      then b\<lparr>bStatus := CONFIRMED, bContractPdfUrl := Some url, bContractGeneratedAt := Some t\<rparr>
      else b)"

text \<open>\<open>installmentCount = 1\<close> in the destructuring of the request body.\<close>

definition installmentCountOf :: "createBookingReq \<Rightarrow> int" where
  "installmentCountOf req = (case reqInstallmentCount req of None \<Rightarrow> 1 | Some n \<Rightarrow> n)"

definition newBooking ::
  "world \<Rightarrow> createBookingReq \<Rightarrow> uuid \<Rightarrow> property \<Rightarrow> paymentType \<Rightarrow> booking" where
  "newBooking w req userId prop ptype =
     \<lparr>bId = genBookingId w, bPropertyId = reqPropertyId req, bTenantId = userId,
      bLandlordId = ownerId prop, bStartDate = reqStartDate req,
      bEndDate = reqEndDate req, bTotalAmount = toScale2 (reqTotalAmount req),
      bSecurityDeposit = map_option toScale2 (reqSecurityDeposit req),
      bPaymentType = ptype, bInstallmentCount = installmentCountOf req,
      bStatus = PENDING, bContractPdfUrl = None, bContractGeneratedAt = None\<rparr>"

definition newLease ::
  "world \<Rightarrow> createBookingReq \<Rightarrow> uuid \<Rightarrow> property \<Rightarrow> booking \<Rightarrow> lease" where
  "newLease w req userId prop booking =
     \<lparr>lId = genLeaseId w, lPropertyId = reqPropertyId req, lTenantId = userId,
      lLandlordId = ownerId prop, lStartDate = reqStartDate req,
      lEndDate = reqEndDate req,
      lRentAmount = toScale2 (reqTotalAmount req / of_int (installmentCountOf req)),
      lSecurityDeposit = map_option toScale2 (reqSecurityDeposit req),
      lNotes = ''Auto-generated lease for booking '' @ bId booking\<rparr>"

definition newConflict :: "createBookingReq \<Rightarrow> booking \<Rightarrow> bookingConflict" where
  "newConflict req booking =
     \<lparr>cPropertyId = reqPropertyId req, cStartDate = reqStartDate req,
      cEndDate = reqEndDate req, cBookingId = Some (bId booking)\<rparr>"

text \<open>From the PDF service to the response: the contract of either branch of the
  \<open>try\<close>/\<open>catch\<close>, its rental agreement row, the update of the booking, the answer.\<close>

definition issueContract ::
  "world \<Rightarrow> db \<Rightarrow> booking \<Rightarrow> lease \<Rightarrow> installment list \<Rightarrow> invoice list \<Rightarrow> response \<times> db" where
  "issueContract w d booking lease createdInstallments createdInvoices =
     (let contract = contractOf (generatePdfCall w) (lId lease) (bId booking);
          contractPdfUrl = fst contract;
          rentalAgreement = snd contract;
          d1 = d\<lparr>rentalAgreements := rentalAgreements d @ [rentalAgreement]\<rparr>;
          d2 = d1\<lparr>bookings :=
                 map (confirmBooking (bId booking) contractPdfUrl (now w)) (bookings d1)\<rparr>
      in (respond 201 (BookingCreated
            \<lparr>rBooking = booking\<lparr>bContractPdfUrl := Some contractPdfUrl,
                                  bStatus := CONFIRMED\<rparr>,
             rLease = lease, rInstallments = createdInstallments,
             rInvoices = createdInvoices, rRentalAgreement = rentalAgreement,
             rContractPdfUrl = contractPdfUrl\<rparr>), d2))"

text \<open>The handler. An \<open>installmentCount\<close> of zero makes the quotient
  \<open>totalAmount / installmentCount\<close> infinite or \<open>NaN\<close>, which the lease's \<open>rentAmount\<close>
  column does not take; a count below one leaves \<open>installmentRecords\<close> empty, and
  \<open>values([])\<close> throws. Either way the outer \<open>catch\<close> answers 500 with the rows written so
  far left in place.\<close>

definition createBooking :: "world \<Rightarrow> db \<Rightarrow> createBookingReq \<Rightarrow> response \<times> db" where
  "createBooking w d req =
     (case reqUser req of
        None \<Rightarrow> (respond 401 (Failure ''User not authenticated''), d)
      | Some userId \<Rightarrow>
      (case (case reqPaymentType req of None \<Rightarrow> None | Some s \<Rightarrow> paymentTypeOfString s) of
        None \<Rightarrow> (respond 400
                   (Failure ''Payment type is required and must be either CASH or ONLINE''), d)
      | Some ptype \<Rightarrow>
      (case find (\<lambda>p. propId p = reqPropertyId req) (properties d) of
        None \<Rightarrow> (respond 404 (Failure ''Property not found''), d)
      | Some prop \<Rightarrow>
        if length (selectConflicts d (reqPropertyId req) (reqStartDate req) (reqEndDate req)) > 0
        then (respond 400 (Failure ''Property not available for selected dates''), d)
        else
          let booking = newBooking w req userId prop ptype;
              d1 = d\<lparr>bookings := bookings d @ [booking]\<rparr>
          in if installmentCountOf req = 0
             then (respond 500 (Failure ''Failed to create booking''), d1)
             else
          let lease = newLease w req userId prop booking;
              d2 = d1\<lparr>leases := leases d1 @ [lease]\<rparr>;
              d3 = d2\<lparr>bookingConflicts := bookingConflicts d2 @ [newConflict req booking]\<rparr>;
              installmentAmount = reqTotalAmount req / of_int (installmentCountOf req);
              records = scheduleLoop (lId lease) (bId booking) installmentAmount
                          (reqStartDate req) (installmentCountOf req) 1 ([], []);
              installmentRecords = fst records;
              invoiceRecords = snd records
          in if installmentRecords = []
             then (respond 500 (Failure ''Failed to create booking''), d3)
             else
          let createdInstallments = storeInstallments (genInstallmentId w) installmentRecords;
              d4 = d3\<lparr>installments := installments d3 @ createdInstallments\<rparr>;
              createdInvoices = map storeInvoice invoiceRecords;
              d5 = d4\<lparr>invoices := invoices d4 @ createdInvoices\<rparr>
          in issueContract w d5 booking lease createdInstallments createdInvoices)))"


definition createdBookingOf :: "response \<Rightarrow> booking option" where
  "createdBookingOf r = (case body r of BookingCreated c \<Rightarrow> Some (rBooking c) | _ \<Rightarrow> None)"

definition createdContractOf :: "response \<Rightarrow> string option" where
  "createdContractOf r =
     (case body r of BookingCreated c \<Rightarrow> Some (rContractPdfUrl c) | _ \<Rightarrow> None)"

definition createdAgreementOf :: "response \<Rightarrow> rentalAgreement option" where
  "createdAgreementOf r =
     (case body r of BookingCreated c \<Rightarrow> Some (rRentalAgreement c) | _ \<Rightarrow> None)"

text \<open>The rental agreement row of the \<open>catch\<close> branch, and a PDF service answer that
  would produce the same row.\<close>

definition placeholderAgreement :: "uuid \<Rightarrow> uuid \<Rightarrow> rentalAgreement" where
  "placeholderAgreement lid bid =
     \<lparr>raLeaseId = lid, raPdfUrl = placeholderUrl bid, raPublicId = ''contract_'' @ bid,
      raFileName = ''rental_agreement_'' @ bid @ ''.pdf'', raFileSize = 1024000\<rparr>"

definition placeholderPdf :: "uuid \<Rightarrow> pdfResult" where
  "placeholderPdf bid =
     \<lparr>pdfUrl = placeholderUrl bid, pdfKey = ''contract_'' @ bid,
      pdfFileName = ''rental_agreement_'' @ bid @ ''.pdf'', pdfSize = 1024000\<rparr>"

subsection \<open>Statements shared by the payment handlers\<close>

text \<open>\<open>update(installments).set({status: 'PAID', paidAt, paidAmount, paymentMethod})
  .where(eq(installments.id, id))\<close>, issued by all four payment paths.\<close>

definition setPaid ::
  "uuid \<Rightarrow> jsdate \<Rightarrow> decimal2 \<Rightarrow> paymentMethod \<Rightarrow> installment \<Rightarrow> installment" where
  "setPaid target t a m i =
     (if iId i = target
      then i\<lparr>status := PAID, paidAt := Some t, paidAmount := Some a, iPaymentMethod := Some m\<rparr>
      else i)"

definition markPaid :: "uuid \<Rightarrow> jsdate \<Rightarrow> decimal2 \<Rightarrow> paymentMethod \<Rightarrow> db \<Rightarrow> db" where
  "markPaid target t a m d = d\<lparr>installments := map (setPaid target t a m) (installments d)\<rparr>"

text \<open>\<open>from(installments).innerJoin(bookings, eq(installments.bookingId, bookings.id))\<close>.\<close>

definition joinInstallmentsBookings :: "db \<Rightarrow> (installment \<times> booking) list" where
  "joinInstallmentsBookings d =
     concat (map (\<lambda>i. map (Pair i) (filter (\<lambda>b. iBookingId i = bId b) (bookings d)))
                 (installments d))"

subsection \<open>Installment payment: \<open>processInstallmentPayment\<close>\<close>

record payReq =
  payUser :: "uuid option"
  payInstallmentId :: "string option"
  payPaymentMethod :: "string option"

definition validPaymentMethods :: "string list" where
  "validPaymentMethods = [''BANK_TRANSFER'', ''CASH'', ''EWALLET'', ''CREDIT_CARD'']"

definition validCashMethods :: "string list" where
  "validCashMethods = [''CASH'']"

definition includesStr :: "string list \<Rightarrow> string option \<Rightarrow> bool" where
  "includesStr xs v \<longleftrightarrow> (case v of None \<Rightarrow> False | Some s \<Rightarrow> s \<in> set xs)"

definition externalIdFor :: "uuid \<Rightarrow> nat \<Rightarrow> string" where
  "externalIdFor installmentId ms = ''installment_'' @ installmentId @ ''_'' @ showNat ms"

definition setXenditInfo :: "uuid \<Rightarrow> string \<Rightarrow> string \<Rightarrow> installment \<Rightarrow> installment" where
  "setXenditInfo target ext invoiceId i =
     (if iId i = target
      then i\<lparr>xenditExternalId := Some ext, xenditInvoiceId := Some invoiceId\<rparr>
      else i)"

text \<open>The branch taken for a booking whose \<open>paymentType\<close> is \<open>CASH\<close>.\<close>

definition cashPayment ::
  "world \<Rightarrow> db \<Rightarrow> string option \<Rightarrow> uuid \<Rightarrow> booking \<Rightarrow> installment \<Rightarrow> response \<times> db" where
  "cashPayment w d paymentMethod installmentId booking installmentData =
     (let finalPaymentMethod =
            (if includesStr validCashMethods paymentMethod then CASH_METHOD else CASH_METHOD);
          updateResult = filter (\<lambda>i. iId i = installmentId) (installments d);
          d1 = markPaid installmentId (now w) (amount installmentData) finalPaymentMethod d
      in if length updateResult = 0
         then (respond 500 (Failure ''Failed to update installment status''), d1)
         else
           (respond 200 (CashPaymentRecorded installmentId (amount installmentData) (now w)),
            d1\<lparr>paymentTransactions := paymentTransactions d1 @
               [\<lparr>tInstallmentId = Some installmentId, tBookingId = bId booking,
                 tAmount = amount installmentData, tPaymentMethod = finalPaymentMethod,
                 tPaymentType = CASH, tXenditInvoiceId = None, tXenditExternalId = None,
                 tStatus = COMPLETED_PAYMENT, tPaidAt = Some (now w)\<rparr>]\<rparr>))"

text \<open>The \<open>else\<close> branch: an invoice of the gateway. Everything from \<open>fetch\<close> to the
  response sits in one \<open>try\<close>; a rejected \<open>fetch\<close>, an answer that is not \<open>ok\<close> and a body
  that does not parse all end in its \<open>catch\<close>.\<close>

definition onlinePayment ::
  "world \<Rightarrow> db \<Rightarrow> uuid \<Rightarrow> booking \<Rightarrow> installment \<Rightarrow> response \<times> db" where
  "onlinePayment w d installmentId booking installmentData =
     (if \<not> truthy (orElse (envXenditSecretKey w) (envXenditApiKey w))
      then (respond 500 (Failure ''Xendit secret key not configured''), d)
      else
        let externalId = externalIdFor installmentId (nowMillis w)
        in case createInvoiceCall w of
             InvoiceReturned xenditData \<Rightarrow>
               let d1 = d\<lparr>installments :=
                          map (setXenditInfo installmentId externalId (xiId xenditData))
                              (installments d)\<rparr>;
                   d2 = d1\<lparr>paymentTransactions := paymentTransactions d1 @
                          [\<lparr>tInstallmentId = Some installmentId, tBookingId = bId booking,
                            tAmount = amount installmentData, tPaymentMethod = BANK_TRANSFER,
                            tPaymentType = ONLINE, tXenditInvoiceId = Some (xiId xenditData),
                            tXenditExternalId = Some externalId, tStatus = PENDING_PAYMENT,
                            tPaidAt = None\<rparr>]\<rparr>
               in (respond 200 (InvoiceCreated xenditData), d2)
           | _ \<Rightarrow> (respond 500 (Failure ''Failed to create payment invoice''), d))"

definition processInstallmentPayment :: "world \<Rightarrow> db \<Rightarrow> payReq \<Rightarrow> response \<times> db" where
  "processInstallmentPayment w d req =
     (case payUser req of
        None \<Rightarrow> (respond 401 (Failure ''User not authenticated''), d)
      | Some userId \<Rightarrow>
        if \<not> truthy (payInstallmentId req)
        then (respond 400 (Failure ''Installment ID is required''), d)
        else if truthy (payPaymentMethod req)
                \<and> \<not> includesStr validPaymentMethods (payPaymentMethod req)
        then (respond 400 (Failure
                ''Invalid payment method. Valid options: BANK_TRANSFER, CASH, EWALLET, CREDIT_CARD''),
              d)
        else
          let installmentId = the (payInstallmentId req)
          in (case find (\<lambda>i. iId i = installmentId) (installments d) of
               None \<Rightarrow> (respond 404 (Failure ''Installment ID not found in database''), d)
             | Some found \<Rightarrow>
               (case find (\<lambda>(i, b). iId i = installmentId \<and> bTenantId b = userId)
                          (joinInstallmentsBookings d) of
                  None \<Rightarrow>
                    (respond 404 (Failure
                       ''Installment not found or you do not have permission to access it''), d)
                | Some (installmentData, booking) \<Rightarrow>
                    if status installmentData = PAID
                    then (respond 400 (Failure ''Installment is already paid''), d)
                    else if bPaymentType booking = CASH
                    then cashPayment w d (payPaymentMethod req) installmentId booking
                           installmentData
                    else onlinePayment w d installmentId booking installmentData)))"

subsection \<open>Manual confirmation: \<open>manualPaymentConfirmation\<close>\<close>

record confirmReq =
  cfUser :: "uuid option"
  cfInstallmentId :: uuid
  cfXenditInvoiceId :: string

definition completeTransaction :: "jsdate \<Rightarrow> paymentTransaction \<Rightarrow> paymentTransaction" where
  "completeTransaction t x = x\<lparr>tStatus := COMPLETED_PAYMENT, tPaidAt := Some t\<rparr>"

text \<open>The optional check against the gateway: only an answer that is \<open>ok\<close> and reports a
  status other than \<open>PAID\<close> stops the confirmation; a rejected or failed call is logged and
  passed over.\<close>

definition verificationRefusal :: "verifyCall \<Rightarrow> response option" where
  "verificationRefusal call =
     (case call of
        VerifyReturned s \<Rightarrow>
          if s \<noteq> ''PAID''
          then Some (respond 400 (Failure (''Payment not completed. Xendit status: '' @ s)))
          else None
      | _ \<Rightarrow> None)"

definition manualPaymentConfirmation :: "world \<Rightarrow> db \<Rightarrow> confirmReq \<Rightarrow> response \<times> db" where
  "manualPaymentConfirmation w d req =
     (case cfUser req of
        None \<Rightarrow> (respond 401 (Failure ''User not authenticated''), d)
      | Some userId \<Rightarrow>
        (case find (\<lambda>(i, b). iId i = cfInstallmentId req \<and> bTenantId b = userId
                             \<and> xenditInvoiceId i = Some (cfXenditInvoiceId req))
                   (joinInstallmentsBookings d) of
           None \<Rightarrow> (respond 404 (Failure ''Installment not found or invalid invoice ID''), d)
         | Some (installment, booking) \<Rightarrow>
             if status installment = PAID
             then (respond 400 (Failure ''Installment already paid''), d)
             else
               (case verificationRefusal (getInvoiceCall w) of
                  Some r \<Rightarrow> (r, d)
                | None \<Rightarrow>
                    let d1 = markPaid (cfInstallmentId req) (now w) (amount installment)
                               BANK_TRANSFER d;
                        d2 = d1\<lparr>paymentTransactions :=
                               map (\<lambda>x. if tInstallmentId x = Some (cfInstallmentId req)
                                         then completeTransaction (now w) x else x)
                                   (paymentTransactions d1)\<rparr>
                    in (respond 200
                          (PaymentConfirmed (cfInstallmentId req) (amount installment) (now w)),
                        d2))))"

subsection \<open>Gateway webhook: \<open>handleXenditWebhook\<close>\<close>

record webhookData =
  whStatus :: "string option"
  whExternalId :: "string option"
  whAmount :: "rat option"
  whPaidAt :: "jsdate option"
  whPaymentMethod :: "string option"

record webhookReq =
  callbackToken :: "string option"
  webhookBody :: webhookData

text \<open>The values of the \<open>set\<close> clause. \<open>webhookData.amount.toString()\<close> throws when the
  amount is missing; a \<open>paid_at\<close> that is no date and a \<open>payment_method\<close> outside the
  column's enumeration are refused when the statement is sent. Each of these ends in the
  handler's \<open>catch\<close>, before any row is written.\<close>

definition webhookValues :: "webhookData \<Rightarrow> (jsdate \<times> decimal2 \<times> paymentMethod) option" where
  "webhookValues wd =
     (case whAmount wd of
        None \<Rightarrow> None
      | Some a \<Rightarrow>
        (case whPaidAt wd of
           None \<Rightarrow> None
         | Some t \<Rightarrow>
           (case paymentMethodOfString
                   (the (orElse (whPaymentMethod wd) (Some ''BANK_TRANSFER''))) of
              None \<Rightarrow> None
            | Some m \<Rightarrow> Some (t, toScale2 a, m))))"

definition handleXenditWebhook :: "world \<Rightarrow> db \<Rightarrow> webhookReq \<Rightarrow> response \<times> db" where
  "handleXenditWebhook w d req =
     (let webhookData = webhookBody req
      in if truthy (envXenditWebhookToken w) \<and> callbackToken req \<noteq> envXenditWebhookToken w
         then (respond 401 (ErrorOnly ''Invalid webhook token''), d)
         else if whStatus webhookData = Some ''PAID'' \<and> truthy (whExternalId webhookData)
         then
           let externalId = the (whExternalId webhookData)
           in case find (\<lambda>i. xenditExternalId i = Some externalId) (installments d) of
                None \<Rightarrow> (respond 404 (ErrorOnly ''Installment not found''), d)
              | Some installment \<Rightarrow>
                (case webhookValues webhookData of
                   None \<Rightarrow> (respond 500 (ErrorOnly ''Webhook processing failed''), d)
                 | Some (t, a, m) \<Rightarrow>
                     let d1 = markPaid (iId installment) t a m d;
                         d2 = d1\<lparr>paymentTransactions :=
                                map (\<lambda>x. if tXenditExternalId x = Some externalId
                                          then completeTransaction t x else x)
                                    (paymentTransactions d1)\<rparr>
                     in (respond 200 Received, d2))
         else (respond 200 Received, d))"

subsection \<open>Simulated payment: \<open>simulatePaymentSuccess\<close>\<close>

record simulateReq =
  smInstallmentId :: uuid
  smExternalId :: string

definition simulatePaymentSuccess :: "world \<Rightarrow> db \<Rightarrow> simulateReq \<Rightarrow> response \<times> db" where
  "simulatePaymentSuccess w d req =
     (case find (\<lambda>i. iId i = smInstallmentId req \<and> xenditExternalId i = Some (smExternalId req))
                (installments d) of
        None \<Rightarrow> (respond 404 (Failure ''Installment not found''), d)
      | Some installment \<Rightarrow>
          let d1 = markPaid (smInstallmentId req) (now w) (amount installment) CREDIT_CARD d;
              d2 = d1\<lparr>invoices :=
                     map (\<lambda>v. if invLeaseId v = iBookingId installment
                               then v\<lparr>invStatus := INVOICE_PAID, invPaidAt := Some (now w)\<rparr>
                               else v)
                         (invoices d1)\<rparr>;
              d3 = d2\<lparr>paymentTransactions := paymentTransactions d2 @
                     [\<lparr>tInstallmentId = Some (smInstallmentId req),
                       tBookingId = iBookingId installment, tAmount = amount installment,
                       tPaymentMethod = CREDIT_CARD, tPaymentType = ONLINE,
                       tXenditInvoiceId = None, tXenditExternalId = Some (smExternalId req),
                       tStatus = COMPLETED_PAYMENT, tPaidAt = Some (now w)\<rparr>]\<rparr>
          in (respond 200 (PaymentSimulated (smInstallmentId req) (amount installment)), d3))"

subsection \<open>Sequences of payment requests\<close>

datatype request =
    PayInstallment payReq
  | ConfirmPayment confirmReq
  | XenditWebhook webhookReq
  | SimulatePayment simulateReq

fun handle :: "world \<Rightarrow> db \<Rightarrow> request \<Rightarrow> response \<times> db" where
  "handle w d (PayInstallment r) = processInstallmentPayment w d r"
| "handle w d (ConfirmPayment r) = manualPaymentConfirmation w d r"
| "handle w d (XenditWebhook r) = handleXenditWebhook w d r"
| "handle w d (SimulatePayment r) = simulatePaymentSuccess w d r"

text \<open>Requests served one after the other, each with the outside world it meets.\<close>

fun serve :: "db \<Rightarrow> (world \<times> request) list \<Rightarrow> db" where
  "serve d [] = d"
| "serve d ((w, r) # rest) = serve (snd (handle w d r)) rest"

subsection \<open>Constraints of the schema and properties of rows\<close>

text \<open>The primary keys of \<open>installments\<close> and \<open>bookings\<close>: no two rows share an id.\<close>

definition wellKeyed :: "db \<Rightarrow> bool" where
  "wellKeyed d \<longleftrightarrow> distinct (map iId (installments d)) \<and> distinct (map bId (bookings d))"

text \<open>A request body of \<open>processInstallmentPayment\<close> that passes the checks made before
  any row is read: a caller, an installment id, and a payment method that is absent or
  one of the four accepted ones.\<close>

definition acceptedPayReq :: "payReq \<Rightarrow> uuid \<Rightarrow> uuid \<Rightarrow> bool" where
  "acceptedPayReq req userId installmentId \<longleftrightarrow>
     payUser req = Some userId \<and> payInstallmentId req = Some installmentId
     \<and> installmentId \<noteq> []
     \<and> (if truthy (payPaymentMethod req)
         then includesStr validPaymentMethods (payPaymentMethod req) else True)"

text \<open>The invariant of a paid installment: the amount recorded as paid is its amount.\<close>

definition paidInFull :: "installment \<Rightarrow> bool" where
  "paidInFull i \<longleftrightarrow> (if status i = PAID then paidAmount i = Some (amount i) else True)"

text \<open>A webhook reports the amount of the installment its \<open>external_id\<close> locates (at the
  scale of the column). Requests of other kinds, and webhooks that locate no installment
  or carry no amount, satisfy this trivially.\<close>

definition reportsInstallmentAmount :: "db \<Rightarrow> request \<Rightarrow> bool" where
  "reportsInstallmentAmount d r =
     (case r of
        XenditWebhook q \<Rightarrow>
          (case whExternalId (webhookBody q) of
             None \<Rightarrow> True
           | Some e \<Rightarrow>
             (case find (\<lambda>i. xenditExternalId i = Some e) (installments d) of
                None \<Rightarrow> True
              | Some i \<Rightarrow>
                (case whAmount (webhookBody q) of
                   None \<Rightarrow> True
                 | Some a \<Rightarrow> toScale2 a = amount i)))
      | _ \<Rightarrow> True)"

fun webhooksReportAmounts :: "db \<Rightarrow> (world \<times> request) list \<Rightarrow> bool" where
  "webhooksReportAmounts d [] = True"
| "webhooksReportAmounts d ((w, r) # rest) =
     (reportsInstallmentAmount d r \<and> webhooksReportAmounts (snd (handle w d r)) rest)"

text \<open>What a payment request can do to the installments: nothing; the \<open>PAID\<close> update of
  one installment with its own amount; or the gateway identifiers of an invoice. The
  bookings stay as they are.\<close>

inductive paymentEffect :: "db \<Rightarrow> db \<Rightarrow> bool" for d :: db where
  unchanged:
    "installments d' = installments d \<Longrightarrow> bookings d' = bookings d \<Longrightarrow> paymentEffect d d'"
| settled:
    "i \<in> set (installments d) \<Longrightarrow>
     installments d' = map (setPaid (iId i) t (amount i) m) (installments d) \<Longrightarrow>
     bookings d' = bookings d \<Longrightarrow> paymentEffect d d'"
| invoiced:
    "installments d' = map (setXenditInfo target ext invoiceId) (installments d) \<Longrightarrow>
     bookings d' = bookings d \<Longrightarrow> paymentEffect d d'"

text \<open>The same without regard to the amount written: some function is applied to every
  installment row, each of the three kinds keeping the row's id.\<close>

inductive paymentWrite :: "db \<Rightarrow> db \<Rightarrow> bool" for d :: db where
  untouched:
    "installments d' = installments d \<Longrightarrow> paymentWrite d d'"
| marked:
    "installments d' = map (setPaid target t a m) (installments d) \<Longrightarrow> paymentWrite d d'"
| tagged:
    "installments d' = map (setXenditInfo target ext invoiceId) (installments d) \<Longrightarrow>
     paymentWrite d d'"

text \<open>Row by row: the same installment, and still \<open>PAID\<close> if it was.\<close>

definition keptPaid :: "installment \<Rightarrow> installment \<Rightarrow> bool" where
  "keptPaid x y \<longleftrightarrow> iId y = iId x \<and> (if status x = PAID then status y = PAID else True)"

text \<open>An installment as the \<open>PAID\<close> update leaves it, and the transaction row the cash
  path inserts.\<close>

definition paidBy :: "jsdate \<Rightarrow> decimal2 \<Rightarrow> paymentMethod \<Rightarrow> installment \<Rightarrow> installment" where
  "paidBy t a m i =
     i\<lparr>status := PAID, paidAt := Some t, paidAmount := Some a, iPaymentMethod := Some m\<rparr>"

definition cashTransaction :: "jsdate \<Rightarrow> booking \<Rightarrow> installment \<Rightarrow> paymentTransaction" where
  "cashTransaction t b i =
     \<lparr>tInstallmentId = Some (iId i), tBookingId = bId b, tAmount = amount i,
      tPaymentMethod = CASH_METHOD, tPaymentType = CASH, tXenditInvoiceId = None,
      tXenditExternalId = None, tStatus = COMPLETED_PAYMENT, tPaidAt = Some t\<rparr>"

subsection \<open>Example data\<close>

definition utcDay :: "int \<Rightarrow> int \<Rightarrow> int \<Rightarrow> jsdate" where
  "utcDay y m d = \<lparr>yr = y, mon = m - 1, dom = d, tod = 0\<rparr>"

definition emptyDb :: db where
  "emptyDb = \<lparr>properties = [], bookings = [], leases = [], bookingConflicts = [],
              installments = [], invoices = [], rentalAgreements = [],
              paymentTransactions = []\<rparr>"

text \<open>A ledger holding one range, 1 to 10 January 2025, of property \<open>P1\<close>.\<close>

definition ledgerJanuary :: db where
  "ledgerJanuary = emptyDb\<lparr>bookingConflicts :=
     [\<lparr>cPropertyId = ''P1'', cStartDate = utcDay 2025 1 1, cEndDate = utcDay 2025 1 10,
       cBookingId = Some ''B0''\<rparr>]\<rparr>"

text \<open>A store with property \<open>P1\<close> of owner \<open>U0\<close> and nothing else; a world in which the
  gateway and the PDF service answer, and the store generates the ids \<open>B1\<close>, \<open>L1\<close>,
  \<open>I1\<close>, \<open>I2\<close>, ...\<close>

definition storeP1 :: db where
  "storeP1 = emptyDb\<lparr>properties := [\<lparr>propId = ''P1'', ownerId = ''U0''\<rparr>]\<rparr>"

definition exampleInvoice :: xenditInvoice where
  "exampleInvoice =
     \<lparr>xiId = ''inv-1'', xiExternalId = ''installment_I1_1740000000000'', xiAmount = 400,
      xiStatus = ''PENDING'', xiInvoiceUrl = ''https://checkout.xendit.co/web/inv-1'',
      xiExpiryDate = ''2025-02-21T00:00:00.000Z''\<rparr>"

definition exampleWorld :: world where
  "exampleWorld =
     \<lparr>now = utcDay 2025 2 20, nowMillis = 1740000000000,
      envXenditSecretKey = Some ''xnd_development_key'', envXenditApiKey = None,
      envXenditWebhookToken = Some ''callback-secret'',
      createInvoiceCall = InvoiceReturned exampleInvoice,
      getInvoiceCall = VerifyReturned ''PAID'',
      generatePdfCall = PdfGenerated
        \<lparr>pdfUrl = ''https://cdn.example.com/agreements/B1.pdf'', pdfKey = ''agreements/B1'',
         pdfFileName = ''B1.pdf'', pdfSize = 52311\<rparr>,
      genBookingId = ''B1'', genLeaseId = ''L1'',
      genInstallmentId = (\<lambda>k. ''I'' @ showNat (Suc k))\<rparr>"

text \<open>The scenario of the specification: property \<open>P1\<close>, 1 to 31 March 2025, total
  1200.00 in three installments.\<close>

definition requestMarch :: createBookingReq where
  "requestMarch =
     \<lparr>reqUser = Some ''U1'', reqPropertyId = ''P1'', reqStartDate = utcDay 2025 3 1,
      reqEndDate = utcDay 2025 3 31, reqTotalAmount = 1200, reqSecurityDeposit = None,
      reqPaymentType = Some ''CASH'', reqInstallmentCount = Some 3\<rparr>"

text \<open>Booking \<open>B1\<close> of tenant \<open>U1\<close> with one installment \<open>I1\<close> of 400.00, unpaid; once paid
  in cash, once online with an invoice of the gateway pending.\<close>

definition bookingB1 :: "paymentType \<Rightarrow> booking" where
  "bookingB1 ptype =
     \<lparr>bId = ''B1'', bPropertyId = ''P1'', bTenantId = ''U1'', bLandlordId = ''U0'',
      bStartDate = utcDay 2025 3 1, bEndDate = utcDay 2025 3 31, bTotalAmount = 40000,
      bSecurityDeposit = None, bPaymentType = ptype, bInstallmentCount = 1,
      bStatus = CONFIRMED, bContractPdfUrl = Some ''https://cdn.example.com/agreements/B1.pdf'',
      bContractGeneratedAt = Some (utcDay 2025 2 1)\<rparr>"

definition installmentI1 :: installment where
  "installmentI1 =
     \<lparr>iId = ''I1'', iBookingId = ''B1'', installmentNumber = 1, amount = 40000,
      dueDate = utcDay 2025 3 1, status = UNPAID, paidAt = None, paidAmount = None,
      iPaymentMethod = None, xenditInvoiceId = None, xenditExternalId = None\<rparr>"

definition cashStore :: db where
  "cashStore = storeP1\<lparr>bookings := [bookingB1 CASH], installments := [installmentI1]\<rparr>"

definition onlineStore :: db where
  "onlineStore = storeP1\<lparr>bookings := [bookingB1 ONLINE], installments := [installmentI1]\<rparr>"

definition pendingTransaction :: paymentTransaction where
  "pendingTransaction =
     \<lparr>tInstallmentId = Some ''I1'', tBookingId = ''B1'', tAmount = 40000,
      tPaymentMethod = BANK_TRANSFER, tPaymentType = ONLINE,
      tXenditInvoiceId = Some ''inv-1'',
      tXenditExternalId = Some ''installment_I1_1740000000000'',
      tStatus = PENDING_PAYMENT, tPaidAt = None\<rparr>"

definition pendingStore :: db where
  "pendingStore = onlineStore
     \<lparr>installments := [installmentI1\<lparr>xenditInvoiceId := Some ''inv-1'',
          xenditExternalId := Some ''installment_I1_1740000000000''\<rparr>],
      paymentTransactions := [pendingTransaction]\<rparr>"

definition payI1 :: "string option \<Rightarrow> payReq" where
  "payI1 m = \<lparr>payUser = Some ''U1'', payInstallmentId = Some ''I1'', payPaymentMethod = m\<rparr>"

text \<open>Webhooks of the gateway for the pending invoice: the payment as invoiced, a
  second delivery that reports other values, and one for an invoice nobody issued.\<close>

definition webhookFor :: "string \<Rightarrow> rat \<Rightarrow> jsdate \<Rightarrow> string \<Rightarrow> webhookReq" where
  "webhookFor ext a t m =
     \<lparr>callbackToken = Some ''callback-secret'',
      webhookBody = \<lparr>whStatus = Some ''PAID'', whExternalId = Some ext, whAmount = Some a,
                     whPaidAt = Some t, whPaymentMethod = Some m\<rparr>\<rparr>"

definition webhookPaid :: webhookReq where
  "webhookPaid =
     webhookFor ''installment_I1_1740000000000'' 400 (utcDay 2025 2 21) ''BANK_TRANSFER''"

definition webhookAgain :: webhookReq where
  "webhookAgain =
     webhookFor ''installment_I1_1740000000000'' 399 (utcDay 2025 2 23) ''EWALLET''"

definition webhookUnknown :: webhookReq where
  "webhookUnknown =
     webhookFor ''installment_I9_1740000000000'' 400 (utcDay 2025 2 21) ''BANK_TRANSFER''"

definition simulateI1 :: simulateReq where
  "simulateI1 = \<lparr>smInstallmentId = ''I1'', smExternalId = ''installment_I1_1740000000000''\<rparr>"

text \<open>The store after the gateway's webhook for the pending invoice has been served.\<close>

definition paidStore :: db where
  "paidStore = serve pendingStore [(exampleWorld, XenditWebhook webhookPaid)]"



section \<open>Conflict ledger\<close>

text \<open>
  Claim C3. \<open>checkAvailability\<close> for a property and a requested range \<open>[s2, e2]\<close> answers
  \<open>available = false\<close> exactly when some conflict record of that property with range
  \<open>[s1, e1]\<close> has \<open>e1 \<ge> s2\<close> and \<open>s1 \<le> e2\<close>; the records it returns are exactly those
  records, and when it answers \<open>available = true\<close> the list is empty. Adjacent ranges
  that do not overlap, such as 1 to 10 January against 11 to 20 January, are available.
\<close>

theorem checkAvailability_overlap:
  "available (checkAvailability d pid s2 e2)
     = (\<not> (\<exists>c \<in> set (bookingConflicts d).
              cPropertyId c = pid \<and> dateLe s2 (cEndDate c) \<and> dateLe (cStartDate c) e2))
   \<and> conflicts (checkAvailability d pid s2 e2)
     = filter (\<lambda>c. cPropertyId c = pid \<and> dateLe s2 (cEndDate c) \<and> dateLe (cStartDate c) e2)
         (bookingConflicts d)
   \<and> (available (checkAvailability d pid s2 e2)
        \<longrightarrow> conflicts (checkAvailability d pid s2 e2) = [])"
proof -
  let ?P = "\<lambda>c. cPropertyId c = pid \<and> dateLe s2 (cEndDate c) \<and> dateLe (cStartDate c) e2"
  have sel: "selectConflicts d pid s2 e2 = filter ?P (bookingConflicts d)"
    unfolding selectConflicts_def conflictsWith_def ..
  have av: "available (checkAvailability d pid s2 e2) = (filter ?P (bookingConflicts d) = [])"
    by (simp add: checkAvailability_def Let_def sel)
  have cf: "conflicts (checkAvailability d pid s2 e2) = filter ?P (bookingConflicts d)"
    by (simp add: checkAvailability_def Let_def sel)
  show ?thesis
    unfolding av cf by (auto simp: filter_empty_conv)
qed

text \<open>On the ledger holding 1 to 10 January for \<open>P1\<close>: 11 to 20 January is available,
  10 to 20 January is not and returns the record, and another property is available.\<close>

theorem checkAvailability_overlap_witness:
  "available (checkAvailability ledgerJanuary ''P1'' (utcDay 2025 1 11) (utcDay 2025 1 20))
   \<and> conflicts (checkAvailability ledgerJanuary ''P1'' (utcDay 2025 1 11) (utcDay 2025 1 20)) = []
   \<and> \<not> available (checkAvailability ledgerJanuary ''P1'' (utcDay 2025 1 10) (utcDay 2025 1 20))
   \<and> conflicts (checkAvailability ledgerJanuary ''P1'' (utcDay 2025 1 10) (utcDay 2025 1 20))
       = bookingConflicts ledgerJanuary
   \<and> available (checkAvailability ledgerJanuary ''P2'' (utcDay 2025 1 10) (utcDay 2025 1 20))"
  using checkAvailability_overlap [of ledgerJanuary "''P1''" "utcDay 2025 1 11" "utcDay 2025 1 20"]
        checkAvailability_overlap [of ledgerJanuary "''P1''" "utcDay 2025 1 10" "utcDay 2025 1 20"]
        checkAvailability_overlap [of ledgerJanuary "''P2''" "utcDay 2025 1 10" "utcDay 2025 1 20"]
  by (simp add: ledgerJanuary_def emptyDb_def utcDay_def dateLe_def)

section \<open>Booking creation\<close>

subsection \<open>The schedule loop and the rows it stores\<close>

lemma scheduleLoop_eq:
  "scheduleLoop lid bid a s n i acc =
     (fst acc @ map (mkInstallmentRecord bid a s) [i..n],
      snd acc @ map (mkInvoiceRecord lid bid a s n) [i..n])"
proof (induction lid bid a s n i acc rule: scheduleLoop.induct)
  case (1 lid bid a s n i acc)
  show ?case
  proof (cases "i \<le> n")
    case True
    then have "[i..n] = i # [i + 1..n]" by (rule upto_rec1)
    with True 1 show ?thesis by (subst scheduleLoop.simps) simp
  next
    case False
    then show ?thesis by (subst scheduleLoop.simps) simp
  qed
qed



subsection \<open>When a booking is created, and what is written\<close>

lemma createBooking_created:
  assumes "reqUser req = Some u"
      and "reqPaymentType req = Some s" and "paymentTypeOfString s = Some pt"
      and "find (\<lambda>p. propId p = reqPropertyId req) (properties d) = Some pr"
      and "selectConflicts d (reqPropertyId req) (reqStartDate req) (reqEndDate req) = []"
      and "1 \<le> installmentCountOf req"
  shows "createBooking w d req =
     (let booking = newBooking w req u pr pt;
          lease = newLease w req u pr booking;
          a = reqTotalAmount req / of_int (installmentCountOf req);
          rows = storeInstallments (genInstallmentId w)
                   (map (mkInstallmentRecord (bId booking) a (reqStartDate req))
                        [1..installmentCountOf req]);
          invs = map storeInvoice
                   (map (mkInvoiceRecord (lId lease) (bId booking) a (reqStartDate req)
                          (installmentCountOf req)) [1..installmentCountOf req])
      in issueContract w
           (d\<lparr>bookings := bookings d @ [booking], leases := leases d @ [lease],
              bookingConflicts := bookingConflicts d @ [newConflict req booking],
              installments := installments d @ rows, invoices := invoices d @ invs\<rparr>)
           booking lease rows invs)"
proof -
  have ne: "map f [1..installmentCountOf req] \<noteq> []" for f :: "int \<Rightarrow> installmentRecord"
    using assms(6) by simp
  have nz: "installmentCountOf req \<noteq> 0" using assms(6) by simp
  show ?thesis
    unfolding createBooking_def
    apply (simp only: assms(1-5) option.case list.size if_False less_irrefl nz scheduleLoop_eq
           fst_conv snd_conv append_Nil Let_def ne)
    apply (simp only: storeInstallments_def)
    apply simp
    done
qed






subsection \<open>The installment schedule\<close>


lemma createBooking_ok:
  assumes "reqUser req = Some u"
      and "reqPaymentType req = Some s" and "paymentTypeOfString s = Some pt"
      and "find (\<lambda>p. propId p = reqPropertyId req) (properties d) = Some pr"
      and "selectConflicts d (reqPropertyId req) (reqStartDate req) (reqEndDate req) = []"
      and "1 \<le> installmentCountOf req"
  shows "httpStatus (fst (createBooking w d req)) = 201"
  unfolding createBooking_created [OF assms]
  by (simp add: Let_def issueContract_def respond_def)




subsection \<open>The sum of a schedule\<close>









subsection \<open>Contract issuance that fails\<close>

lemma contractOf_failed:
  "contractOf PdfFailed lid bid = (placeholderUrl bid, placeholderAgreement lid bid)"
  by (simp add: contractOf_def placeholderAgreement_def)

lemma contractOf_placeholderPdf:
  "contractOf (PdfGenerated (placeholderPdf bid)) lid bid = contractOf PdfFailed lid bid"
  by (simp add: contractOf_def placeholderPdf_def)

lemma confirmBooking_set:
  assumes "b \<in> set (map (confirmBooking bid url t) bs)" and "bId b = bid"
  shows "bStatus b = CONFIRMED \<and> bContractPdfUrl b = Some url"
proof -
  from assms(1) obtain x where x: "b = confirmBooking bid url t x"
    unfolding set_map by (rule imageE)
  show ?thesis
  proof (cases "bId x = bid")
    case True
    then show ?thesis unfolding x by (simp add: confirmBooking_def)
  next
    case False
    then have "b = x" unfolding x by (simp add: confirmBooking_def)
    with False assms(2) show ?thesis by simp
  qed
qed

text \<open>
  Claim C9. When the PDF service fails in a \<open>createBooking\<close> that has passed its checks
  (and so has written the booking, the lease, the conflict record, the installments and
  the invoices), the request still succeeds with 201: the placeholder reference
  \<open>https://storage.example.com/contracts/<booking id>.pdf\<close> is the contract of the
  response and of the booking row, a rental agreement row carrying the placeholder is
  inserted, and the booking row is set to \<open>CONFIRMED\<close>. The whole outcome is the one of a
  run in which the PDF service had answered with the placeholder's values.
\<close>

theorem createBooking_contract_fallback:
  assumes u: "reqUser req = Some u"
      and s: "reqPaymentType req = Some s" and pt: "paymentTypeOfString s = Some pt"
      and pr: "find (\<lambda>p. propId p = reqPropertyId req) (properties d) = Some pr"
      and sel: "selectConflicts d (reqPropertyId req) (reqStartDate req) (reqEndDate req) = []"
      and n: "1 \<le> installmentCountOf req"
      and pdf: "generatePdfCall w = PdfFailed"
  shows "httpStatus (fst (createBooking w d req)) = 201
       \<and> createdContractOf (fst (createBooking w d req)) = Some (placeholderUrl (genBookingId w))
       \<and> createdAgreementOf (fst (createBooking w d req))
           = Some (placeholderAgreement (genLeaseId w) (genBookingId w))
       \<and> map_option bStatus (createdBookingOf (fst (createBooking w d req))) = Some CONFIRMED
       \<and> map_option bContractPdfUrl (createdBookingOf (fst (createBooking w d req)))
           = Some (Some (placeholderUrl (genBookingId w)))
       \<and> rentalAgreements (snd (createBooking w d req))
           = rentalAgreements d @ [placeholderAgreement (genLeaseId w) (genBookingId w)]
       \<and> (\<exists>b \<in> set (bookings (snd (createBooking w d req))). bId b = genBookingId w)
       \<and> (\<forall>b \<in> set (bookings (snd (createBooking w d req))).
             bId b = genBookingId w \<longrightarrow>
               bStatus b = CONFIRMED
             \<and> bContractPdfUrl b = Some (placeholderUrl (genBookingId w)))
       \<and> createBooking w d req
           = createBooking (w\<lparr>generatePdfCall := PdfGenerated (placeholderPdf (genBookingId w))\<rparr>)
               d req"
proof -
  let ?w' = "w\<lparr>generatePdfCall := PdfGenerated (placeholderPdf (genBookingId w))\<rparr>"
  note eq = createBooking_created [OF u s pt pr sel n, of w]
  note eq' = createBooking_created [OF u s pt pr sel n, of ?w']
  have bid: "bId (newBooking w req u pr pt) = genBookingId w" by (simp add: newBooking_def)
  have lid: "lId (newLease w req u pr b) = genLeaseId w" for b by (simp add: newLease_def)
  have c1: "httpStatus (fst (createBooking w d req)) = 201"
    by (rule createBooking_ok [OF u s pt pr sel n])
  have c2: "createdContractOf (fst (createBooking w d req)) = Some (placeholderUrl (genBookingId w))"
    unfolding eq
    by (simp add: Let_def issueContract_def createdContractOf_def respond_def pdf
          contractOf_failed bid)
  have c3: "createdAgreementOf (fst (createBooking w d req))
           = Some (placeholderAgreement (genLeaseId w) (genBookingId w))"
    unfolding eq
    by (simp add: Let_def issueContract_def createdAgreementOf_def respond_def pdf
          contractOf_failed bid lid)
  have c4: "map_option bStatus (createdBookingOf (fst (createBooking w d req))) = Some CONFIRMED"
    unfolding eq
    by (simp add: Let_def issueContract_def createdBookingOf_def respond_def)
  have c5: "map_option bContractPdfUrl (createdBookingOf (fst (createBooking w d req)))
           = Some (Some (placeholderUrl (genBookingId w)))"
    unfolding eq
    by (simp add: Let_def issueContract_def createdBookingOf_def respond_def pdf
          contractOf_failed bid)
  have c6: "rentalAgreements (snd (createBooking w d req))
           = rentalAgreements d @ [placeholderAgreement (genLeaseId w) (genBookingId w)]"
    unfolding eq
    by (simp add: Let_def issueContract_def pdf contractOf_failed bid lid)
  have bs: "bookings (snd (createBooking w d req))
           = map (confirmBooking (genBookingId w) (placeholderUrl (genBookingId w)) (now w))
               (bookings d @ [newBooking w req u pr pt])"
    unfolding eq
    by (simp add: Let_def issueContract_def pdf contractOf_failed bid)
  have c7: "\<exists>b \<in> set (bookings (snd (createBooking w d req))). bId b = genBookingId w"
    unfolding bs by (rule bexI [where x = "confirmBooking (genBookingId w) (placeholderUrl (genBookingId w)) (now w) (newBooking w req u pr pt)"]) (simp_all add: confirmBooking_def bid)
  have c8: "\<forall>b \<in> set (bookings (snd (createBooking w d req))).
             bId b = genBookingId w \<longrightarrow>
               bStatus b = CONFIRMED
             \<and> bContractPdfUrl b = Some (placeholderUrl (genBookingId w))"
    unfolding bs using confirmBooking_set by blast
  have nb: "newBooking ?w' req u pr pt = newBooking w req u pr pt"
    by (simp add: newBooking_def)
  have nl: "newLease ?w' req u pr b = newLease w req u pr b" for b
    by (simp add: newLease_def)
  have ic: "issueContract ?w' D (newBooking w req u pr pt) l rs vs
              = issueContract w D (newBooking w req u pr pt) l rs vs" for D l rs vs
    by (simp add: issueContract_def pdf contractOf_placeholderPdf bid)
  have gi: "genInstallmentId ?w' = genInstallmentId w" by simp
  have c9: "createBooking w d req = createBooking ?w' d req"
    unfolding eq eq' by (simp only: nb nl ic gi Let_def)
  show ?thesis by (intro conjI c1 c2 c3 c4 c5 c6 c7 c8 c9)
qed

text \<open>The scenario of March with a PDF service that fails.\<close>

theorem createBooking_contract_fallback_witness:
  "httpStatus (fst (createBooking (exampleWorld\<lparr>generatePdfCall := PdfFailed\<rparr>) storeP1
                      requestMarch)) = 201
   \<and> createdContractOf (fst (createBooking (exampleWorld\<lparr>generatePdfCall := PdfFailed\<rparr>) storeP1
                               requestMarch))
       = Some ''https://storage.example.com/contracts/B1.pdf''
   \<and> map_option bStatus
        (createdBookingOf (fst (createBooking (exampleWorld\<lparr>generatePdfCall := PdfFailed\<rparr>)
                                  storeP1 requestMarch))) = Some CONFIRMED
   \<and> map raPdfUrl
        (rentalAgreements (snd (createBooking (exampleWorld\<lparr>generatePdfCall := PdfFailed\<rparr>)
                                   storeP1 requestMarch)))
       = [''https://storage.example.com/contracts/B1.pdf'']"
proof -
  let ?w = "exampleWorld\<lparr>generatePdfCall := PdfFailed\<rparr>"
  have p1: "reqUser requestMarch = Some ''U1''" by (simp add: requestMarch_def)
  have p2: "reqPaymentType requestMarch = Some ''CASH''" by (simp add: requestMarch_def)
  have p3: "paymentTypeOfString ''CASH'' = Some CASH" by (simp add: paymentTypeOfString_def)
  have p4: "find (\<lambda>p. propId p = reqPropertyId requestMarch) (properties storeP1)
              = Some \<lparr>propId = ''P1'', ownerId = ''U0''\<rparr>"
    by (simp add: requestMarch_def storeP1_def emptyDb_def)
  have p5: "selectConflicts storeP1 (reqPropertyId requestMarch) (reqStartDate requestMarch)
              (reqEndDate requestMarch) = []"
    by (simp add: selectConflicts_def storeP1_def emptyDb_def)
  have p6: "1 \<le> installmentCountOf requestMarch"
    by (simp add: installmentCountOf_def requestMarch_def)
  have p7: "generatePdfCall ?w = PdfFailed" by simp
  note th = createBooking_contract_fallback [OF p1 p2 p3 p4 p5 p6 p7]
  have g: "genBookingId ?w = ''B1''" "genLeaseId ?w = ''L1''" by (simp_all add: exampleWorld_def)
  have u: "placeholderUrl ''B1'' = ''https://storage.example.com/contracts/B1.pdf''"
    by (simp add: placeholderUrl_def)
  have c1: "httpStatus (fst (createBooking ?w storeP1 requestMarch)) = 201"
    by (rule th [THEN conjunct1])
  have c2: "createdContractOf (fst (createBooking ?w storeP1 requestMarch))
              = Some ''https://storage.example.com/contracts/B1.pdf''"
    using th [THEN conjunct2, THEN conjunct1] by (simp only: g u)
  have c3: "map_option bStatus (createdBookingOf (fst (createBooking ?w storeP1 requestMarch)))
              = Some CONFIRMED"
    by (rule th [THEN conjunct2, THEN conjunct2, THEN conjunct2, THEN conjunct1])
  have c4: "map raPdfUrl (rentalAgreements (snd (createBooking ?w storeP1 requestMarch)))
              = [''https://storage.example.com/contracts/B1.pdf'']"
    using th [THEN conjunct2, THEN conjunct2, THEN conjunct2, THEN conjunct2, THEN conjunct2,
              THEN conjunct1]
    by (simp add: g u placeholderAgreement_def storeP1_def emptyDb_def)
  show ?thesis by (intro conjI c1 c2 c3 c4)
qed

section \<open>Installment payments\<close>

subsection \<open>Finding the installment and its booking\<close>

lemma find_unique:
  assumes "x \<in> set xs" and "P x" and "\<And>y. y \<in> set xs \<Longrightarrow> P y \<Longrightarrow> y = x"
  shows "find P xs = Some x"
proof (cases "find P xs")
  case None
  with assms(1,2) show ?thesis by (simp add: find_None_iff)
next
  case (Some y)
  then have "y \<in> set xs" "P y" by (auto simp: find_Some_iff)
  with assms(3) Some show ?thesis by simp
qed

lemma find_SomeD: "find P xs = Some x \<Longrightarrow> x \<in> set xs \<and> P x"
  by (auto simp: find_Some_iff)

lemma set_joinInstallmentsBookings:
  "(i, b) \<in> set (joinInstallmentsBookings d)
     \<longleftrightarrow> i \<in> set (installments d) \<and> b \<in> set (bookings d) \<and> iBookingId i = bId b"
  unfolding joinInstallmentsBookings_def by auto

lemma installment_by_id:
  assumes "distinct (map iId (installments d))"
      and "i \<in> set (installments d)" and "x \<in> set (installments d)" and "iId x = iId i"
  shows "x = i"
  using assms by (meson distinct_map inj_onD)

lemma booking_by_id:
  assumes "distinct (map bId (bookings d))"
      and "b \<in> set (bookings d)" and "y \<in> set (bookings d)" and "bId y = bId b"
  shows "y = b"
  using assms by (meson distinct_map inj_onD)

lemma find_installment:
  assumes "wellKeyed d" and "i \<in> set (installments d)"
  shows "find (\<lambda>x. iId x = iId i) (installments d) = Some i"
  using assms installment_by_id [of d i]
  by (intro find_unique) (simp_all add: wellKeyed_def)

lemma find_joined:
  assumes keys: "wellKeyed d"
      and i: "i \<in> set (installments d)" and b: "b \<in> set (bookings d)"
      and ib: "iBookingId i = bId b"
      and R: "R i b"
  shows "find (\<lambda>(x, y). iId x = iId i \<and> R x y) (joinInstallmentsBookings d) = Some (i, b)"
proof (rule find_unique)
  show "(i, b) \<in> set (joinInstallmentsBookings d)"
    using i b ib by (simp add: set_joinInstallmentsBookings)
  show "case (i, b) of (x, y) \<Rightarrow> iId x = iId i \<and> R x y" using R by simp
  fix p assume p: "p \<in> set (joinInstallmentsBookings d)"
    and c: "case p of (x, y) \<Rightarrow> iId x = iId i \<and> R x y"
  obtain x y where xy: "p = (x, y)" by (cases p)
  from p xy have mem: "x \<in> set (installments d)" "y \<in> set (bookings d)" "iBookingId x = bId y"
    by (simp_all add: set_joinInstallmentsBookings)
  from keys have di: "distinct (map iId (installments d))"
    and db: "distinct (map bId (bookings d))"
    by (simp_all add: wellKeyed_def)
  from c xy have "iId x = iId i" by simp
  then have x: "x = i" by (rule installment_by_id [OF di i mem(1)])
  with mem(3) ib have "bId y = bId b" by simp
  then have "y = b" by (rule booking_by_id [OF db b mem(2)])
  with x xy show "p = (i, b)" by simp
qed

lemma processInstallmentPayment_dispatch:
  assumes keys: "wellKeyed d"
      and req: "acceptedPayReq req (bTenantId b) (iId i)"
      and i: "i \<in> set (installments d)" and b: "b \<in> set (bookings d)"
      and ib: "iBookingId i = bId b"
  shows "processInstallmentPayment w d req =
     (if status i = PAID then (respond 400 (Failure ''Installment is already paid''), d)
      else if bPaymentType b = CASH
      then cashPayment w d (payPaymentMethod req) (iId i) b i
      else onlinePayment w d (iId i) b i)"
proof -
  have u: "payUser req = Some (bTenantId b)" and id: "payInstallmentId req = Some (iId i)"
    and ne: "truthy (Some (iId i))"
    and m: "\<not> (truthy (payPaymentMethod req)
             \<and> \<not> includesStr validPaymentMethods (payPaymentMethod req))"
    using req by (auto simp: acceptedPayReq_def truthy_def split: if_splits)
  have f1: "find (\<lambda>x. iId x = iId i) (installments d) = Some i"
    by (rule find_installment [OF keys i])
  have f2: "find (\<lambda>(x, y). iId x = iId i \<and> bTenantId y = bTenantId b)
              (joinInstallmentsBookings d) = Some (i, b)"
    by (rule find_joined [OF keys i b ib, where R = "\<lambda>x y. bTenantId y = bTenantId b"]) simp
  show ?thesis
    unfolding processInstallmentPayment_def
    by (simp only: u id ne m f1 f2 option.case option.sel Let_def if_False not_True_eq_False
          prod.case simp_thms)
qed

subsection \<open>The cash path\<close>

lemma cashStore_facts:
  "wellKeyed cashStore"
  "installmentI1 \<in> set (installments cashStore)"
  "bookingB1 CASH \<in> set (bookings cashStore)"
  "iBookingId installmentI1 = bId (bookingB1 CASH)"
  "bPaymentType (bookingB1 CASH) = CASH"
  "status installmentI1 \<noteq> PAID"
  by (simp_all add: wellKeyed_def cashStore_def storeP1_def emptyDb_def installmentI1_def
        bookingB1_def)

lemma onlineStore_facts:
  "wellKeyed onlineStore"
  "installmentI1 \<in> set (installments onlineStore)"
  "bookingB1 ONLINE \<in> set (bookings onlineStore)"
  "iBookingId installmentI1 = bId (bookingB1 ONLINE)"
  "bPaymentType (bookingB1 ONLINE) = ONLINE"
  "status installmentI1 \<noteq> PAID"
  by (simp_all add: wellKeyed_def onlineStore_def storeP1_def emptyDb_def installmentI1_def
        bookingB1_def)

lemma payI1_accepted:
  "acceptedPayReq (payI1 None) (bTenantId (bookingB1 ptype)) (iId installmentI1)"
  "acceptedPayReq (payI1 (Some ''CASH'')) (bTenantId (bookingB1 ptype)) (iId installmentI1)"
  "acceptedPayReq (payI1 (Some ''EWALLET'')) (bTenantId (bookingB1 ptype)) (iId installmentI1)"
  by (simp_all add: acceptedPayReq_def payI1_def bookingB1_def installmentI1_def truthy_def
        includesStr_def validPaymentMethods_def)

lemma setPaid_id: "iId (setPaid target t a m x) = iId x"
  by (simp add: setPaid_def)

lemma setPaid_booking: "iBookingId (setPaid target t a m x) = iBookingId x"
  by (simp add: setPaid_def)

lemma setPaid_target: "setPaid (iId x) t a m x = paidBy t a m x"
  by (simp add: setPaid_def paidBy_def)

lemma iId_comp_setPaid: "iId \<circ> setPaid target t a m = iId"
  by (simp add: fun_eq_iff setPaid_def)

lemma map_iId_setPaid: "map iId (map (setPaid target t a m) xs) = map iId xs"
  by (simp add: iId_comp_setPaid)


lemma wellKeyed_transactions:
  "wellKeyed (d\<lparr>paymentTransactions := ts\<rparr>) = wellKeyed d"
  by (simp add: wellKeyed_def)


lemma cashPayment_result:
  assumes "i \<in> set (installments d)"
  shows "cashPayment w d pm (iId i) b i =
           (respond 200 (CashPaymentRecorded (iId i) (amount i) (now w)),
            d\<lparr>installments := map (setPaid (iId i) (now w) (amount i) CASH_METHOD) (installments d),
              paymentTransactions := paymentTransactions d @ [cashTransaction (now w) b i]\<rparr>)"
proof -
  have "filter (\<lambda>x. iId x = iId i) (installments d) \<noteq> []"
    using assms by (simp add: filter_empty_conv) blast
  then show ?thesis
    by (simp add: cashPayment_def Let_def markPaid_def cashTransaction_def)
qed




text \<open>
  Claim C6. Two calls of \<open>processInstallmentPayment\<close> for the same unpaid installment of a
  booking whose payment type is \<open>CASH\<close>, by the booking's tenant: the first answers 200,
  sets the installment to \<open>PAID\<close> with \<open>paidAmount\<close> equal to its amount (and the method
  \<open>CASH\<close>), and appends exactly one payment transaction, of status \<open>COMPLETED\<close>; the
  second, whatever the clock and the gateway then say, answers 400 ``Installment is
  already paid'' and leaves the store exactly as the first call left it, so no second
  transaction exists.
\<close>

theorem cash_payment_twice:
  assumes keys: "wellKeyed d"
      and req: "acceptedPayReq req (bTenantId b) (iId i)"
      and i: "i \<in> set (installments d)" and b: "b \<in> set (bookings d)"
      and ib: "iBookingId i = bId b"
      and cash: "bPaymentType b = CASH"
      and unpaid: "status i \<noteq> PAID"
  shows "fst (processInstallmentPayment w d req)
           = respond 200 (CashPaymentRecorded (iId i) (amount i) (now w))
       \<and> snd (processInstallmentPayment w d req)
           = d\<lparr>installments :=
                 map (setPaid (iId i) (now w) (amount i) CASH_METHOD) (installments d),
               paymentTransactions := paymentTransactions d @ [cashTransaction (now w) b i]\<rparr>
       \<and> find (\<lambda>x. iId x = iId i) (installments (snd (processInstallmentPayment w d req)))
           = Some (paidBy (now w) (amount i) CASH_METHOD i)
       \<and> tStatus (cashTransaction (now w) b i) = COMPLETED_PAYMENT
       \<and> processInstallmentPayment w' (snd (processInstallmentPayment w d req)) req
           = (respond 400 (Failure ''Installment is already paid''),
              snd (processInstallmentPayment w d req))"
proof -
  let ?i' = "paidBy (now w) (amount i) CASH_METHOD i"
  let ?d' = "d\<lparr>installments :=
                 map (setPaid (iId i) (now w) (amount i) CASH_METHOD) (installments d),
               paymentTransactions := paymentTransactions d @ [cashTransaction (now w) b i]\<rparr>"
  have first: "processInstallmentPayment w d req
                 = (respond 200 (CashPaymentRecorded (iId i) (amount i) (now w)), ?d')"
    unfolding processInstallmentPayment_dispatch [OF keys req i b ib]
    using unpaid cash by (simp add: cashPayment_result [OF i])
  have keys': "wellKeyed ?d'"
    using keys by (simp add: wellKeyed_def iId_comp_setPaid)
  have i': "?i' \<in> set (installments ?d')"
  proof -
    have "setPaid (iId i) (now w) (amount i) CASH_METHOD i \<in> set (installments ?d')"
      using i by simp
    then show ?thesis by (simp only: setPaid_target)
  qed
  have b': "b \<in> set (bookings ?d')" using b by simp
  have id': "iId ?i' = iId i" and ib': "iBookingId ?i' = bId b" and paid: "status ?i' = PAID"
    using ib by (simp_all add: paidBy_def)
  have req': "acceptedPayReq req (bTenantId b) (iId ?i')" using req by (simp only: id')
  have found: "find (\<lambda>x. iId x = iId i) (installments ?d') = Some ?i'"
    using find_installment [OF keys' i'] by (simp only: id')
  have second: "processInstallmentPayment w' ?d' req
                  = (respond 400 (Failure ''Installment is already paid''), ?d')"
    unfolding processInstallmentPayment_dispatch [OF keys' req' i' b' ib']
    by (simp only: paid if_True simp_thms)
  have c4: "tStatus (cashTransaction (now w) b i) = COMPLETED_PAYMENT"
    by (simp add: cashTransaction_def)
  show ?thesis
    unfolding first fst_conv snd_conv
    by (intro conjI refl found c4 second)
qed

text \<open>Installment \<open>I1\<close> of the cash booking \<open>B1\<close>, paid twice by tenant \<open>U1\<close>.\<close>

theorem cash_payment_twice_witness:
  "fst (processInstallmentPayment exampleWorld cashStore (payI1 (Some ''CASH'')))
     = respond 200 (CashPaymentRecorded ''I1'' 40000 (utcDay 2025 2 20))
   \<and> map status (installments
         (snd (processInstallmentPayment exampleWorld cashStore (payI1 (Some ''CASH''))))) = [PAID]
   \<and> map paidAmount (installments
         (snd (processInstallmentPayment exampleWorld cashStore (payI1 (Some ''CASH'')))))
       = [Some 40000]
   \<and> map tStatus (paymentTransactions
         (snd (processInstallmentPayment exampleWorld cashStore (payI1 (Some ''CASH'')))))
       = [COMPLETED_PAYMENT]
   \<and> processInstallmentPayment exampleWorld
         (snd (processInstallmentPayment exampleWorld cashStore (payI1 (Some ''CASH''))))
         (payI1 (Some ''CASH''))
       = (respond 400 (Failure ''Installment is already paid''),
          snd (processInstallmentPayment exampleWorld cashStore (payI1 (Some ''CASH''))))"
proof -
  note th = cash_payment_twice [OF cashStore_facts(1) payI1_accepted(2) cashStore_facts(2-6),
                                 of exampleWorld exampleWorld]
  have c1: "fst (processInstallmentPayment exampleWorld cashStore (payI1 (Some ''CASH'')))
     = respond 200 (CashPaymentRecorded ''I1'' 40000 (utcDay 2025 2 20))"
    using th [THEN conjunct1] by (simp add: installmentI1_def exampleWorld_def)
  note st = th [THEN conjunct2, THEN conjunct1]
  have c2: "map status (installments
         (snd (processInstallmentPayment exampleWorld cashStore (payI1 (Some ''CASH''))))) = [PAID]"
    unfolding st by (simp add: cashStore_def setPaid_def)
  have c3: "map paidAmount (installments
         (snd (processInstallmentPayment exampleWorld cashStore (payI1 (Some ''CASH'')))))
       = [Some 40000]"
    unfolding st by (simp add: cashStore_def setPaid_def installmentI1_def)
  have c4: "map tStatus (paymentTransactions
         (snd (processInstallmentPayment exampleWorld cashStore (payI1 (Some ''CASH'')))))
       = [COMPLETED_PAYMENT]"
    unfolding st by (simp add: cashStore_def storeP1_def emptyDb_def cashTransaction_def)
  note c5 = th [THEN conjunct2, THEN conjunct2, THEN conjunct2, THEN conjunct2]
  show ?thesis by (intro conjI c1 c2 c3 c4 c5)
qed

subsection \<open>A gateway invoice that cannot be created\<close>

lemma onlinePayment_failed:
  assumes "\<forall>x. createInvoiceCall w \<noteq> InvoiceReturned x"
  shows "onlinePayment w d iid b i =
           (if \<not> truthy (orElse (envXenditSecretKey w) (envXenditApiKey w))
            then (respond 500 (Failure ''Xendit secret key not configured''), d)
            else (respond 500 (Failure ''Failed to create payment invoice''), d))"
  using assms by (cases "createInvoiceCall w") (simp_all add: onlinePayment_def Let_def)

text \<open>
  Claim C8. When the creation of the gateway invoice fails during
  \<open>processInstallmentPayment\<close> for an unpaid installment of a booking whose payment type
  is \<open>ONLINE\<close> (the call is rejected, answers with an error status, or answers with a body
  that does not parse), the caller gets 500 ``Failed to create payment invoice'' and the
  store is left as it was: the installment row carries no invoice id or external id of
  this attempt and no payment transaction row is created.
\<close>

theorem invoice_failure_leaves_store:
  assumes keys: "wellKeyed d"
      and req: "acceptedPayReq req (bTenantId b) (iId i)"
      and i: "i \<in> set (installments d)" and b: "b \<in> set (bookings d)"
      and ib: "iBookingId i = bId b"
      and online: "bPaymentType b = ONLINE"
      and unpaid: "status i \<noteq> PAID"
      and key: "truthy (orElse (envXenditSecretKey w) (envXenditApiKey w))"
      and failed: "\<forall>x. createInvoiceCall w \<noteq> InvoiceReturned x"
  shows "processInstallmentPayment w d req
           = (respond 500 (Failure ''Failed to create payment invoice''), d)
       \<and> httpStatus (fst (processInstallmentPayment w d req)) = 500
       \<and> installments (snd (processInstallmentPayment w d req)) = installments d
       \<and> paymentTransactions (snd (processInstallmentPayment w d req)) = paymentTransactions d"
proof -
  have "processInstallmentPayment w d req
           = (respond 500 (Failure ''Failed to create payment invoice''), d)"
    unfolding processInstallmentPayment_dispatch [OF keys req i b ib]
    using unpaid online key by (simp add: onlinePayment_failed [OF failed])
  then show ?thesis by (simp add: respond_def)
qed

text \<open>The gateway answers 503, or the call times out, for installment \<open>I1\<close> of the online
  booking.\<close>

theorem invoice_failure_leaves_store_witness:
  "processInstallmentPayment (exampleWorld\<lparr>createInvoiceCall := HttpError 503 ''unavailable''\<rparr>)
     onlineStore (payI1 None)
     = (respond 500 (Failure ''Failed to create payment invoice''), onlineStore)
   \<and> processInstallmentPayment (exampleWorld\<lparr>createInvoiceCall := FetchRejected ''timeout''\<rparr>)
     onlineStore (payI1 None)
     = (respond 500 (Failure ''Failed to create payment invoice''), onlineStore)"
proof -
  have k: "truthy (orElse (envXenditSecretKey (exampleWorld\<lparr>createInvoiceCall := c\<rparr>))
                          (envXenditApiKey (exampleWorld\<lparr>createInvoiceCall := c\<rparr>)))" for c
    by (simp add: exampleWorld_def truthy_def orElse_def)
  have f1: "\<forall>x. createInvoiceCall (exampleWorld\<lparr>createInvoiceCall := HttpError 503 ''unavailable''\<rparr>)
              \<noteq> InvoiceReturned x" by simp
  have f2: "\<forall>x. createInvoiceCall (exampleWorld\<lparr>createInvoiceCall := FetchRejected ''timeout''\<rparr>)
              \<noteq> InvoiceReturned x" by simp
  note t1 = invoice_failure_leaves_store [OF onlineStore_facts(1) payI1_accepted(1)
              onlineStore_facts(2-6) k f1, THEN conjunct1]
  note t2 = invoice_failure_leaves_store [OF onlineStore_facts(1) payI1_accepted(1)
              onlineStore_facts(2-6) k f2, THEN conjunct1]
  show ?thesis by (intro conjI t1 t2)
qed

subsection \<open>Which path a request takes\<close>







section \<open>Paid installments\<close>

subsection \<open>What the handlers do to the installments\<close>

lemma joined_installment:
  "find P (joinInstallmentsBookings d) = Some (i, b) \<Longrightarrow> i \<in> set (installments d) \<and> P (i, b)"
  by (auto dest!: find_SomeD simp: set_joinInstallmentsBookings)

lemma paymentEffect_refl: "paymentEffect d d"
  by (rule paymentEffect.unchanged) simp_all

lemma markPaid_effect:
  assumes "i \<in> set (installments d)" and "iId i = target" and "a = amount i"
      and "installments d' = installments (markPaid target t a m d)"
      and "bookings d' = bookings d"
  shows "paymentEffect d d'"
  using assms by (intro paymentEffect.settled [of i d d' t m]) (simp_all add: markPaid_def)

lemma cashPayment_effect:
  assumes "i \<in> set (installments d)" and "iId i = iid"
  shows "paymentEffect d (snd (cashPayment w d pm iid b i))"
  by (rule markPaid_effect [OF assms refl, where t = "now w" and m = CASH_METHOD])
     (simp_all add: cashPayment_def Let_def markPaid_def)

lemma onlinePayment_effect: "paymentEffect d (snd (onlinePayment w d iid b i))"
proof (cases "createInvoiceCall w")
  case (InvoiceReturned x)
  show ?thesis
  proof (cases "truthy (orElse (envXenditSecretKey w) (envXenditApiKey w))")
    case True
    with InvoiceReturned show ?thesis
      by (intro paymentEffect.invoiced
            [where target = iid and ext = "externalIdFor iid (nowMillis w)" and invoiceId = "xiId x"])
         (simp_all add: onlinePayment_def Let_def)
  next
    case False
    then show ?thesis by (simp add: onlinePayment_def paymentEffect_refl)
  qed
qed (simp_all add: onlinePayment_def Let_def paymentEffect_refl)

lemma processInstallmentPayment_effect:
  "paymentEffect d (snd (processInstallmentPayment w d req))"
proof -
  note same = paymentEffect_refl [of d]
  show ?thesis
  proof (cases "payUser req")
    case None
    then show ?thesis by (simp add: processInstallmentPayment_def same)
  next
    case (Some u)
    let ?iid = "the (payInstallmentId req)"
    show ?thesis
    proof (cases "find (\<lambda>(x, y). iId x = ?iid \<and> bTenantId y = u) (joinInstallmentsBookings d)")
      case None
      with Some show ?thesis
        by (simp add: processInstallmentPayment_def same Let_def split: option.splits)
    next
      case (Some p)
      obtain i b where p: "p = (i, b)" by (cases p)
      from Some p have mem: "i \<in> set (installments d)" and id: "iId i = ?iid"
        using joined_installment [of _ d i b] by auto
      from \<open>payUser req = Some u\<close> Some p show ?thesis
        by (simp add: processInstallmentPayment_def same Let_def
              cashPayment_effect [OF mem id] onlinePayment_effect split: option.splits)
    qed
  qed
qed

lemma manualPaymentConfirmation_effect:
  "paymentEffect d (snd (manualPaymentConfirmation w d req))"
proof (cases "cfUser req")
  case None
  then show ?thesis by (simp add: manualPaymentConfirmation_def paymentEffect_refl)
next
  case (Some u)
  show ?thesis
  proof (cases "find (\<lambda>(i, b). iId i = cfInstallmentId req \<and> bTenantId b = u
                             \<and> xenditInvoiceId i = Some (cfXenditInvoiceId req))
                   (joinInstallmentsBookings d)")
    case None
    with Some show ?thesis by (simp add: manualPaymentConfirmation_def paymentEffect_refl)
  next
    case found: (Some p)
    obtain i b where p: "p = (i, b)" by (cases p)
    from found p have mem: "i \<in> set (installments d)" and id: "iId i = cfInstallmentId req"
      using joined_installment [of _ d i b] by auto
    have paid: "paymentEffect d (d1\<lparr>paymentTransactions := ts\<rparr>)"
      if "d1 = markPaid (cfInstallmentId req) (now w) (amount i) BANK_TRANSFER d" for d1 ts
      by (rule markPaid_effect [OF mem id refl, where t = "now w" and m = BANK_TRANSFER])
         (simp_all add: that markPaid_def)
    from Some found p show ?thesis
      by (simp add: manualPaymentConfirmation_def Let_def paymentEffect_refl paid
            split: option.splits)
  qed
qed

lemma simulatePaymentSuccess_effect:
  "paymentEffect d (snd (simulatePaymentSuccess w d req))"
proof (cases "find (\<lambda>i. iId i = smInstallmentId req \<and> xenditExternalId i = Some (smExternalId req))
                (installments d)")
  case None
  then show ?thesis by (simp add: simulatePaymentSuccess_def paymentEffect_refl)
next
  case (Some i)
  then have mem: "i \<in> set (installments d)" and id: "iId i = smInstallmentId req"
    by (auto dest!: find_SomeD)
  have "paymentEffect d (snd (simulatePaymentSuccess w d req))"
    by (rule markPaid_effect [OF mem id refl, where t = "now w" and m = CREDIT_CARD])
       (simp_all add: simulatePaymentSuccess_def Some Let_def markPaid_def)
  then show ?thesis .
qed

lemma handleXenditWebhook_paid:
  assumes auth: "\<not> (truthy (envXenditWebhookToken w)
                     \<and> callbackToken req \<noteq> envXenditWebhookToken w)"
      and st: "whStatus (webhookBody req) = Some ''PAID''"
      and e: "whExternalId (webhookBody req) = Some e" and ne: "e \<noteq> []"
  shows "handleXenditWebhook w d req =
           (case find (\<lambda>i. xenditExternalId i = Some e) (installments d) of
              None \<Rightarrow> (respond 404 (ErrorOnly ''Installment not found''), d)
            | Some installment \<Rightarrow>
              (case webhookValues (webhookBody req) of
                 None \<Rightarrow> (respond 500 (ErrorOnly ''Webhook processing failed''), d)
               | Some (t, a, m) \<Rightarrow>
                   (respond 200 Received,
                    (markPaid (iId installment) t a m d)
                      \<lparr>paymentTransactions :=
                         map (\<lambda>x. if tXenditExternalId x = Some e
                                   then completeTransaction t x else x)
                             (paymentTransactions d)\<rparr>)))"
proof -
  have tr: "truthy (Some e)" using ne by (simp add: truthy_def)
  show ?thesis
    unfolding handleXenditWebhook_def Let_def
    by (simp only: if_not_P [OF auth] st e tr option.sel simp_thms if_True)
       (simp add: markPaid_def split: option.splits)
qed

lemma handleXenditWebhook_other:
  assumes "\<not> (whStatus (webhookBody req) = Some ''PAID''
              \<and> truthy (whExternalId (webhookBody req)))"
  shows "snd (handleXenditWebhook w d req) = d"
  unfolding handleXenditWebhook_def Let_def
  by (simp only: if_not_P [OF assms]) simp

lemma handleXenditWebhook_refused:
  assumes "truthy (envXenditWebhookToken w) \<and> callbackToken req \<noteq> envXenditWebhookToken w"
  shows "handleXenditWebhook w d req = (respond 401 (ErrorOnly ''Invalid webhook token''), d)"
  unfolding handleXenditWebhook_def Let_def
  by (simp only: if_P [OF assms])

lemma handleXenditWebhook_effect:
  assumes "reportsInstallmentAmount d (XenditWebhook req)"
  shows "paymentEffect d (snd (handleXenditWebhook w d req))"
proof (cases "truthy (envXenditWebhookToken w) \<and> callbackToken req \<noteq> envXenditWebhookToken w")
  case True
  show ?thesis
    unfolding handleXenditWebhook_refused [OF True] snd_conv by (rule paymentEffect_refl)
next
  case auth: False
  show ?thesis
  proof (cases "whStatus (webhookBody req) = Some ''PAID''
                 \<and> truthy (whExternalId (webhookBody req))")
    case False
    show ?thesis
      unfolding handleXenditWebhook_other [OF False] by (rule paymentEffect_refl)
  next
    case True
    then obtain e where e: "whExternalId (webhookBody req) = Some e" and ne: "e \<noteq> []"
      by (cases "whExternalId (webhookBody req)") (simp_all add: truthy_def)
    from True have st: "whStatus (webhookBody req) = Some ''PAID''" by simp
    note eq = handleXenditWebhook_paid [OF auth st e ne, of d]
    show ?thesis
    proof (cases "find (\<lambda>i. xenditExternalId i = Some e) (installments d)")
      case None
      then show ?thesis unfolding eq by (simp add: paymentEffect_refl)
    next
      case found: (Some i)
      then have mem: "i \<in> set (installments d)" by (auto dest!: find_SomeD)
      show ?thesis
      proof (cases "webhookValues (webhookBody req)")
        case None
        with found show ?thesis unfolding eq by (simp add: paymentEffect_refl)
      next
        case (Some v)
        obtain t a m where v: "v = (t, a, m)" by (cases v)
        from Some v obtain q where q: "whAmount (webhookBody req) = Some q"
          and a: "a = toScale2 q"
          by (auto simp: webhookValues_def split: option.splits)
        from assms e found q have "toScale2 q = amount i"
          by (simp add: reportsInstallmentAmount_def)
        with a have am: "a = amount i" by simp
        show ?thesis
          unfolding eq
          by (rule markPaid_effect [OF mem refl am, where t = t and m = m])
             (use found Some v in \<open>simp_all add: markPaid_def\<close>)
      qed
    qed
  qed
qed

lemma handle_effect:
  "reportsInstallmentAmount d r \<Longrightarrow> paymentEffect d (snd (handle w d r))"
  by (cases r)
     (simp_all add: processInstallmentPayment_effect manualPaymentConfirmation_effect
        simulatePaymentSuccess_effect handleXenditWebhook_effect)

lemma iId_comp_setXenditInfo: "iId \<circ> setXenditInfo target ext invoiceId = iId"
  by (simp add: fun_eq_iff setXenditInfo_def)

lemma paidInFull_setXenditInfo:
  "paidInFull (setXenditInfo target ext invoiceId x) = paidInFull x"
  by (simp add: paidInFull_def setXenditInfo_def)

lemma paidInFull_paidBy: "paidInFull (paidBy t (amount x) m x)"
  by (simp add: paidInFull_def paidBy_def)

lemma paymentEffect_invariant:
  assumes eff: "paymentEffect d d'" and keys: "wellKeyed d"
      and inv: "\<forall>x \<in> set (installments d). paidInFull x"
  shows "wellKeyed d' \<and> (\<forall>x \<in> set (installments d'). paidInFull x)"
  using eff
proof cases
  case unchanged
  with keys inv show ?thesis by (simp add: wellKeyed_def)
next
  case (settled i t m)
  have k: "wellKeyed d'" using keys settled by (simp add: wellKeyed_def iId_comp_setPaid)
  have "paidInFull (setPaid (iId i) t (amount i) m x)" if x: "x \<in> set (installments d)" for x
  proof (cases "iId x = iId i")
    case True
    from keys have "distinct (map iId (installments d))" by (simp add: wellKeyed_def)
    from installment_by_id [OF this settled(1) x True] have "x = i" .
    then show ?thesis by (simp add: setPaid_target paidInFull_paidBy)
  next
    case False
    with inv x show ?thesis by (simp add: setPaid_def)
  qed
  with k settled(2) show ?thesis by simp
next
  case (invoiced target ext invoiceId)
  with keys inv show ?thesis
    by (simp add: wellKeyed_def iId_comp_setXenditInfo paidInFull_setXenditInfo)
qed

subsection \<open>The amount recorded as paid\<close>

lemma pendingStore_installments:
  "installments pendingStore
     = [installmentI1\<lparr>xenditInvoiceId := Some ''inv-1'',
          xenditExternalId := Some ''installment_I1_1740000000000''\<rparr>]"
  "paymentTransactions pendingStore = [pendingTransaction]"
  "bookings pendingStore = [bookingB1 ONLINE]"
  by (simp_all add: pendingStore_def onlineStore_def)

lemma pendingStore_keys: "wellKeyed pendingStore"
  by (simp add: wellKeyed_def pendingStore_installments)

lemma pendingStore_unpaid: "\<forall>x \<in> set (installments pendingStore). paidInFull x"
  by (simp add: pendingStore_installments paidInFull_def installmentI1_def)

lemma exampleWorld_token:
  "\<not> (truthy (envXenditWebhookToken exampleWorld)
       \<and> callbackToken (webhookFor ext a t m) \<noteq> envXenditWebhookToken exampleWorld)"
  by (simp add: exampleWorld_def webhookFor_def)

lemma webhookFor_body:
  "whStatus (webhookBody (webhookFor ext a t m)) = Some ''PAID''"
  "whExternalId (webhookBody (webhookFor ext a t m)) = Some ext"
  "whAmount (webhookBody (webhookFor ext a t m)) = Some a"
  by (simp_all add: webhookFor_def)

lemma webhookValues_examples:
  "webhookValues (webhookBody webhookPaid) = Some (utcDay 2025 2 21, 40000, BANK_TRANSFER)"
  "webhookValues (webhookBody webhookAgain) = Some (utcDay 2025 2 23, 39900, EWALLET)"
  by (simp_all add: webhookValues_def webhookPaid_def webhookAgain_def webhookFor_def
        orElse_def truthy_def paymentMethodOfString_def toScale2_def floor_eq_iff)

lemma pendingStore_webhook:
  assumes "webhookValues (webhookBody (webhookFor ''installment_I1_1740000000000'' a t m))
             = Some (t, c, pm)"
  shows "handleXenditWebhook exampleWorld pendingStore
           (webhookFor ''installment_I1_1740000000000'' a t m)
         = (respond 200 Received,
            pendingStore
              \<lparr>installments :=
                 [paidBy t c pm (installmentI1\<lparr>xenditInvoiceId := Some ''inv-1'',
                    xenditExternalId := Some ''installment_I1_1740000000000''\<rparr>)],
               paymentTransactions := [completeTransaction t pendingTransaction]\<rparr>)"
proof -
  have ne: "''installment_I1_1740000000000'' \<noteq> []" by simp
  show ?thesis
    unfolding handleXenditWebhook_paid [OF exampleWorld_token webhookFor_body(1,2) ne]
    by (simp add: pendingStore_installments assms markPaid_def setPaid_def paidBy_def
          installmentI1_def pendingTransaction_def)
qed

lemma paidStore_eq:
  "paidStore = pendingStore
     \<lparr>installments :=
        [paidBy (utcDay 2025 2 21) 40000 BANK_TRANSFER
           (installmentI1\<lparr>xenditInvoiceId := Some ''inv-1'',
              xenditExternalId := Some ''installment_I1_1740000000000''\<rparr>)],
      paymentTransactions := [completeTransaction (utcDay 2025 2 21) pendingTransaction]\<rparr>"
  unfolding paidStore_def
  using pendingStore_webhook [OF webhookValues_examples(1) [unfolded webhookPaid_def]]
  by (simp add: webhookPaid_def)

text \<open>
  Claim C1, as stated: after any sequence of payment operations, an installment whose
  status is \<open>PAID\<close> has \<open>paidAmount\<close> equal to its amount. It fails on the webhook path,
  which records the amount the gateway reports: a webhook reporting 399.00 for the
  pending installment of 400.00 leaves it \<open>PAID\<close> with \<open>paidAmount\<close> 399.00.
\<close>

theorem paid_amount_counterexample:
  "wellKeyed pendingStore
   \<and> list_all paidInFull (installments pendingStore)
   \<and> map status
        (installments (serve pendingStore [(exampleWorld, XenditWebhook webhookAgain)])) = [PAID]
   \<and> map amount
        (installments (serve pendingStore [(exampleWorld, XenditWebhook webhookAgain)])) = [40000]
   \<and> map paidAmount
        (installments (serve pendingStore [(exampleWorld, XenditWebhook webhookAgain)]))
       = [Some 39900]
   \<and> \<not> list_all paidInFull
          (installments (serve pendingStore [(exampleWorld, XenditWebhook webhookAgain)]))"
proof -
  have s: "serve pendingStore [(exampleWorld, XenditWebhook webhookAgain)]
             = pendingStore
                 \<lparr>installments :=
                    [paidBy (utcDay 2025 2 23) 39900 EWALLET
                       (installmentI1\<lparr>xenditInvoiceId := Some ''inv-1'',
                          xenditExternalId := Some ''installment_I1_1740000000000''\<rparr>)],
                  paymentTransactions :=
                    [completeTransaction (utcDay 2025 2 23) pendingTransaction]\<rparr>"
    using pendingStore_webhook [OF webhookValues_examples(2) [unfolded webhookAgain_def]]
    by (simp add: webhookAgain_def)
  show ?thesis
    unfolding s using pendingStore_keys pendingStore_unpaid
    by (simp add: list_all_iff paidBy_def paidInFull_def installmentI1_def)
qed

lemma serve_invariant:
  assumes "wellKeyed d" and "\<forall>x \<in> set (installments d). paidInFull x"
      and "webhooksReportAmounts d ops"
  shows "wellKeyed (serve d ops) \<and> (\<forall>x \<in> set (installments (serve d ops)). paidInFull x)"
  using assms
proof (induction ops arbitrary: d)
  case Nil
  then show ?case by simp
next
  case (Cons p ops)
  obtain w r where p: "p = (w, r)" by (cases p)
  from Cons.prems(3) p have r: "reportsInstallmentAmount d r"
    and rest: "webhooksReportAmounts (snd (handle w d r)) ops"
    by simp_all
  from paymentEffect_invariant [OF handle_effect [OF r] Cons.prems(1,2)]
  have "wellKeyed (snd (handle w d r))"
    and "\<forall>x \<in> set (installments (snd (handle w d r))). paidInFull x"
    by blast+
  from Cons.IH [OF this rest] show ?case by (simp add: p)
qed

text \<open>
  Claim C1, amended: from a store in which every \<open>PAID\<close> installment has \<open>paidAmount\<close>
  equal to its amount, every sequence of payment requests (installment payment by cash
  or online, manual confirmation, webhook, simulated payment) leads to a store with the
  same property, provided each webhook served reports the amount of the installment its
  \<open>external_id\<close> locates. (The webhook handler stores the amount the gateway reports,
  without comparing it.)
\<close>

theorem paid_amount_invariant:
  assumes "wellKeyed d" and "\<forall>x \<in> set (installments d). paidInFull x"
      and "webhooksReportAmounts d ops"
  shows "\<forall>x \<in> set (installments (serve d ops)). paidInFull x"
  using serve_invariant [OF assms] by blast

text \<open>The webhook for the pending invoice reporting 400.00, followed by a payment
  request for the same installment.\<close>

theorem paid_amount_invariant_witness:
  "list_all paidInFull
     (installments (serve pendingStore
        [(exampleWorld, XenditWebhook webhookPaid), (exampleWorld, PayInstallment (payI1 None))]))
   \<and> map status
        (installments (serve pendingStore [(exampleWorld, XenditWebhook webhookPaid)])) = [PAID]
   \<and> map paidAmount
        (installments (serve pendingStore [(exampleWorld, XenditWebhook webhookPaid)]))
       = [Some 40000]"
proof -
  have rep: "webhooksReportAmounts pendingStore
               [(exampleWorld, XenditWebhook webhookPaid),
                (exampleWorld, PayInstallment (payI1 None))]"
    by (simp add: reportsInstallmentAmount_def webhookPaid_def webhookFor_body
          pendingStore_installments installmentI1_def toScale2_def floor_eq_iff)
  note th = paid_amount_invariant [OF pendingStore_keys pendingStore_unpaid rep]
  have c1: "list_all paidInFull
     (installments (serve pendingStore
        [(exampleWorld, XenditWebhook webhookPaid), (exampleWorld, PayInstallment (payI1 None))]))"
    using th by (simp only: list_all_iff)
  have s: "serve pendingStore [(exampleWorld, XenditWebhook webhookPaid)] = paidStore"
    by (simp only: paidStore_def)
  have c2: "map status
        (installments (serve pendingStore [(exampleWorld, XenditWebhook webhookPaid)])) = [PAID]"
    unfolding s paidStore_eq by (simp add: paidBy_def)
  have c3: "map paidAmount
        (installments (serve pendingStore [(exampleWorld, XenditWebhook webhookPaid)]))
       = [Some 40000]"
    unfolding s paidStore_eq by (simp add: paidBy_def)
  show ?thesis by (intro conjI c1 c2 c3)
qed

subsection \<open>A webhook for an unknown installment\<close>

text \<open>
  Claim C7: an authenticated webhook with status \<open>PAID\<close> whose \<open>external_id\<close> matches no
  installment is to be answered with HTTP 200, the 404 only in the body. The handler
  answers with HTTP status 404 and the body \<open>{error: 'Installment not found'}\<close>, and
  writes nothing.
\<close>

theorem webhook_unknown_installment:
  assumes auth: "\<not> (truthy (envXenditWebhookToken w)
                     \<and> callbackToken req \<noteq> envXenditWebhookToken w)"
      and st: "whStatus (webhookBody req) = Some ''PAID''"
      and e: "whExternalId (webhookBody req) = Some e" and ne: "e \<noteq> []"
      and none: "\<forall>i \<in> set (installments d). xenditExternalId i \<noteq> Some e"
  shows "handleXenditWebhook w d req = (respond 404 (ErrorOnly ''Installment not found''), d)
       \<and> httpStatus (fst (handleXenditWebhook w d req)) = 404
       \<and> httpStatus (fst (handleXenditWebhook w d req)) \<noteq> 200"
proof -
  have "find (\<lambda>i. xenditExternalId i = Some e) (installments d) = None"
    using none by (simp add: find_None_iff)
  then have "handleXenditWebhook w d req = (respond 404 (ErrorOnly ''Installment not found''), d)"
    unfolding handleXenditWebhook_paid [OF auth st e ne] by simp
  then show ?thesis by (simp add: respond_def)
qed

text \<open>A webhook for an \<open>external_id\<close> no installment carries.\<close>

theorem webhook_unknown_installment_witness:
  "handleXenditWebhook exampleWorld pendingStore webhookUnknown
     = (respond 404 (ErrorOnly ''Installment not found''), pendingStore)
   \<and> httpStatus (fst (handleXenditWebhook exampleWorld pendingStore webhookUnknown)) = 404"
proof -
  have ne: "''installment_I9_1740000000000'' \<noteq> []" by simp
  have none: "\<forall>i \<in> set (installments pendingStore).
                xenditExternalId i \<noteq> Some ''installment_I9_1740000000000''"
    by (simp add: pendingStore_installments)
  have auth: "\<not> (truthy (envXenditWebhookToken exampleWorld)
                     \<and> callbackToken webhookUnknown \<noteq> envXenditWebhookToken exampleWorld)"
    unfolding webhookUnknown_def by (rule exampleWorld_token)
  have st: "whStatus (webhookBody webhookUnknown) = Some ''PAID''"
    and e: "whExternalId (webhookBody webhookUnknown) = Some ''installment_I9_1740000000000''"
    by (simp_all add: webhookUnknown_def webhookFor_body)
  note th = webhook_unknown_installment [OF auth st e ne none]
  show ?thesis by (intro conjI th [THEN conjunct1] th [THEN conjunct2, THEN conjunct1])
qed

subsection \<open>Requests that reach an installment already paid\<close>

text \<open>No request takes an installment out of \<open>PAID\<close>: through any sequence of payment
  requests every installment row stays in place, keeps its id, and stays \<open>PAID\<close> once it
  is.\<close>

lemma paymentEffect_write: "paymentEffect d d' \<Longrightarrow> paymentWrite d d'"
  by (induction rule: paymentEffect.induct)
     (auto intro: paymentWrite.untouched paymentWrite.marked paymentWrite.tagged)

lemma handleXenditWebhook_write: "paymentWrite d (snd (handleXenditWebhook w d req))"
proof (cases "truthy (envXenditWebhookToken w) \<and> callbackToken req \<noteq> envXenditWebhookToken w")
  case True
  show ?thesis
    unfolding handleXenditWebhook_refused [OF True] snd_conv
    by (rule paymentWrite.untouched) simp
next
  case auth: False
  show ?thesis
  proof (cases "whStatus (webhookBody req) = Some ''PAID''
                 \<and> truthy (whExternalId (webhookBody req))")
    case False
    show ?thesis
      unfolding handleXenditWebhook_other [OF False] by (rule paymentWrite.untouched) simp
  next
    case True
    then obtain e where e: "whExternalId (webhookBody req) = Some e" and ne: "e \<noteq> []"
      by (cases "whExternalId (webhookBody req)") (simp_all add: truthy_def)
    from True have st: "whStatus (webhookBody req) = Some ''PAID''" by simp
    note eq = handleXenditWebhook_paid [OF auth st e ne, of d]
    show ?thesis
    proof (cases "find (\<lambda>i. xenditExternalId i = Some e) (installments d)")
      case None
      then show ?thesis unfolding eq by (simp add: paymentWrite.untouched)
    next
      case found: (Some i)
      show ?thesis
      proof (cases "webhookValues (webhookBody req)")
        case None
        with found show ?thesis unfolding eq by (simp add: paymentWrite.untouched)
      next
        case (Some v)
        obtain t a m where v: "v = (t, a, m)" by (cases v)
        show ?thesis
          unfolding eq
          by (rule paymentWrite.marked [where target = "iId i" and t = t and a = a and m = m])
             (use found Some v in \<open>simp add: markPaid_def\<close>)
      qed
    qed
  qed
qed

lemma handle_write: "paymentWrite d (snd (handle w d r))"
proof (cases r)
  case (XenditWebhook q)
  then show ?thesis by (simp add: handleXenditWebhook_write)
next
  case (PayInstallment q)
  then show ?thesis by (simp add: paymentEffect_write processInstallmentPayment_effect)
next
  case (ConfirmPayment q)
  then show ?thesis by (simp add: paymentEffect_write manualPaymentConfirmation_effect)
next
  case (SimulatePayment q)
  then show ?thesis by (simp add: paymentEffect_write simulatePaymentSuccess_effect)
qed

lemma keptPaid_refl: "keptPaid x x"
  by (simp add: keptPaid_def)

lemma keptPaid_trans: "keptPaid x y \<Longrightarrow> keptPaid y z \<Longrightarrow> keptPaid x z"
  by (simp add: keptPaid_def split: if_splits)

lemma keptPaid_setPaid: "keptPaid x (setPaid target t a m x)"
  by (simp add: keptPaid_def setPaid_def)

lemma keptPaid_setXenditInfo: "keptPaid x (setXenditInfo target ext invoiceId x)"
  by (simp add: keptPaid_def setXenditInfo_def)

lemma list_all2_map_right: "(\<And>x. R x (f x)) \<Longrightarrow> list_all2 R xs (map f xs)"
  by (induction xs) simp_all

lemma paymentWrite_keptPaid:
  assumes "paymentWrite d d'"
  shows "list_all2 keptPaid (installments d) (installments d')"
  using assms
proof cases
  case untouched
  then show ?thesis by (simp add: list_all2_same keptPaid_refl)
next
  case (marked target t a m)
  then show ?thesis by (simp add: list_all2_map_right keptPaid_setPaid)
next
  case (tagged target ext invoiceId)
  then show ?thesis by (simp add: list_all2_map_right keptPaid_setXenditInfo)
qed

lemma serve_keptPaid: "list_all2 keptPaid (installments d) (installments (serve d ops))"
proof (induction ops arbitrary: d)
  case Nil
  show ?case by (simp add: list_all2_same keptPaid_refl)
next
  case (Cons p ops)
  obtain w r where p: "p = (w, r)" by (cases p)
  have "list_all2 keptPaid (installments d) (installments (snd (handle w d r)))"
    by (rule paymentWrite_keptPaid [OF handle_write])
  moreover note Cons.IH [of "snd (handle w d r)"]
  ultimately have "list_all2 keptPaid (installments d)
                     (installments (serve (snd (handle w d r)) ops))"
    by (rule list_all2_trans [rotated]) (rule keptPaid_trans)
  then show ?case by (simp add: p)
qed

lemma paidStore_webhookAgain:
  "handleXenditWebhook exampleWorld paidStore webhookAgain
     = (respond 200 Received,
        paidStore
          \<lparr>installments :=
             [paidBy (utcDay 2025 2 23) 39900 EWALLET
                (installmentI1\<lparr>xenditInvoiceId := Some ''inv-1'',
                   xenditExternalId := Some ''installment_I1_1740000000000''\<rparr>)],
           paymentTransactions :=
             [completeTransaction (utcDay 2025 2 23) pendingTransaction]\<rparr>)"
proof -
  have ne: "''installment_I1_1740000000000'' \<noteq> []" by simp
  show ?thesis
    unfolding webhookAgain_def
      handleXenditWebhook_paid [OF exampleWorld_token webhookFor_body(1,2) ne]
    using webhookValues_examples(2) [unfolded webhookAgain_def]
    by (simp add: paidStore_eq markPaid_def setPaid_def paidBy_def installmentI1_def
          pendingTransaction_def completeTransaction_def)
qed

lemma paidStore_simulate:
  "simulatePaymentSuccess exampleWorld paidStore simulateI1
     = (respond 200 (PaymentSimulated ''I1'' 40000),
        paidStore
          \<lparr>installments :=
             [paidBy (utcDay 2025 2 20) 40000 CREDIT_CARD
                (installmentI1\<lparr>xenditInvoiceId := Some ''inv-1'',
                   xenditExternalId := Some ''installment_I1_1740000000000''\<rparr>)],
           paymentTransactions :=
             [completeTransaction (utcDay 2025 2 21) pendingTransaction,
              \<lparr>tInstallmentId = Some ''I1'', tBookingId = ''B1'', tAmount = 40000,
                tPaymentMethod = CREDIT_CARD, tPaymentType = ONLINE,
                tXenditInvoiceId = None,
                tXenditExternalId = Some ''installment_I1_1740000000000'',
                tStatus = COMPLETED_PAYMENT, tPaidAt = Some (utcDay 2025 2 20)\<rparr>]\<rparr>)"
  by (simp add: simulatePaymentSuccess_def simulateI1_def paidStore_eq Let_def markPaid_def
        setPaid_def paidBy_def installmentI1_def exampleWorld_def pendingStore_def
        onlineStore_def storeP1_def emptyDb_def)

text \<open>
  Claim C2: once an installment is \<open>PAID\<close>, no later operation changes its status,
  \<open>paidAmount\<close>, \<open>paidAt\<close> or payment method. Installment payment and manual confirmation
  refuse a \<open>PAID\<close> installment; the webhook handler and the simulated payment do not
  look at the status. On the store in which \<open>I1\<close> was paid by the gateway's webhook
  (400.00 on 21 February by bank transfer), a second webhook for the same \<open>external_id\<close>
  is answered 200 and rewrites \<open>paidAmount\<close>, \<open>paidAt\<close> and the method; a simulated payment
  rewrites \<open>paidAt\<close> and the method and adds a second \<open>COMPLETED\<close> transaction. The status
  stays \<open>PAID\<close> in both.
\<close>

theorem paid_installment_overwritten:
  "map status (installments paidStore) = [PAID]
   \<and> map paidAmount (installments paidStore) = [Some 40000]
   \<and> map paidAt (installments paidStore) = [Some (utcDay 2025 2 21)]
   \<and> map iPaymentMethod (installments paidStore) = [Some BANK_TRANSFER]
   \<and> fst (handleXenditWebhook exampleWorld paidStore webhookAgain) = respond 200 Received
   \<and> map status (installments (snd (handleXenditWebhook exampleWorld paidStore webhookAgain)))
       = [PAID]
   \<and> map paidAmount (installments (snd (handleXenditWebhook exampleWorld paidStore webhookAgain)))
       = [Some 39900]
   \<and> map paidAt (installments (snd (handleXenditWebhook exampleWorld paidStore webhookAgain)))
       = [Some (utcDay 2025 2 23)]
   \<and> map iPaymentMethod
        (installments (snd (handleXenditWebhook exampleWorld paidStore webhookAgain)))
       = [Some EWALLET]
   \<and> fst (simulatePaymentSuccess exampleWorld paidStore simulateI1)
       = respond 200 (PaymentSimulated ''I1'' 40000)
   \<and> map paidAt (installments (snd (simulatePaymentSuccess exampleWorld paidStore simulateI1)))
       = [Some (utcDay 2025 2 20)]
   \<and> map iPaymentMethod
        (installments (snd (simulatePaymentSuccess exampleWorld paidStore simulateI1)))
       = [Some CREDIT_CARD]
   \<and> map tStatus
        (paymentTransactions (snd (simulatePaymentSuccess exampleWorld paidStore simulateI1)))
       = [COMPLETED_PAYMENT, COMPLETED_PAYMENT]"
  unfolding paidStore_webhookAgain paidStore_simulate fst_conv snd_conv
  by (simp add: paidStore_eq paidBy_def completeTransaction_def)

end
